theory Spec2Isabelle
  imports Complex_Main "HOL-Library.FSet"
begin

section \<open>Data model\<close>

text \<open>
  Python exceptions are values. \<open>AssertionError\<close> is a failed \<^verbatim>\<open>assert\<close>,
  \<open>Exception\<close> a \<^verbatim>\<open>raise Exception(...)\<close>, \<open>ValueError\<close> what \<^verbatim>\<open>list.remove\<close>,
  \<^verbatim>\<open>list.index\<close> and \<^verbatim>\<open>min([])\<close> raise, \<open>KeyError\<close> a missing dictionary key and
  \<open>IndexError\<close> a failed lookup in the memory or the FIB.
\<close>

datatype error = AssertionError | Exception | ValueError | KeyError | IndexError

text \<open>
  Modelled from the spec: \<^verbatim>\<open>QubitState\<close> and \<^verbatim>\<open>MemoryQubit\<close> live in
  \<^verbatim>\<open>mqns/entity/memory.py\<close>. A memory qubit has an address, a state, an optional
  channel assignment, an optional path_id and an optional reservation key
  \<^verbatim>\<open>active\<close>. Nodes and quantum channels are referred to by their names. A qubit
  object is referred to by the position of its slot in the memory, which is its
  address. The attribute \<^verbatim>\<open>state\<close> is assigned as the handlers below assign it.
\<close>

datatype QubitState = RAW | ACTIVE | RESERVED | ENTANGLED0 | PURIF | ELIGIBLE | RELEASE

record MemoryQubit =
  addr :: nat
  state :: QubitState
  qchannel :: "string option"
  path_id :: "int option"
  active :: "string option"

text \<open>
  Modelled from the spec: \<^verbatim>\<open>WernerStateEntanglement\<close> lives in \<^verbatim>\<open>mqns/models/epr.py\<close>.
  The fields are the ones the spec lists and the handlers below read and write. The
  type \<open>'t\<close> is the simulator's time. The candidate set \<^verbatim>\<open>tmp_path_ids\<close> is a
  \<^verbatim>\<open>frozenset[int] | None\<close>.
\<close>

record 't epr =
  name :: string
  fidelity :: real
  creation_time :: "'t"
  decoherence_time :: "'t option"
  src :: "string option"
  dst :: "string option"
  attempts :: nat
  key :: "string option"
  tmp_path_ids :: "int fset option"

text \<open>
  Modelled from the spec: the class \<^verbatim>\<open>FibEntry\<close> and the table \<^verbatim>\<open>Fib\<close> live in
  \<^verbatim>\<open>mqns/network/proactive/fib.py\<close>. An entry has a path_id, the ordered node names
  of the path, one swap rank per node, the purification rounds, and the rank of the
  own node. \<^verbatim>\<open>find_index_and_swap_rank(node_name)\<close> locates a node's position and its
  swap rank; \<^verbatim>\<open>get(path_id)\<close> fails if the path is unknown.
\<close>

record FibEntry =
  fib_path_id :: int
  route :: "string list"
  swap :: "int list"
  purif :: "(string \<times> int) list"
  own_swap_rank :: int

fun find_index :: "('a \<Rightarrow> bool) \<Rightarrow> 'a list \<Rightarrow> nat option" where
  "find_index P [] = None"
| "find_index P (x # xs) = (if P x then Some 0 else map_option Suc (find_index P xs))"

definition find_index_and_swap_rank :: "FibEntry \<Rightarrow> string \<Rightarrow> error + (nat \<times> int)" where
  "find_index_and_swap_rank e node_name =
     (case find_index (\<lambda>n. n = node_name) (route e) of
        None \<Rightarrow> Inl ValueError
      | Some idx \<Rightarrow>
          if idx < length (swap e) then Inr (idx, swap e ! idx) else Inl IndexError)"

type_synonym Fib = "FibEntry list"

definition fib_get :: "Fib \<Rightarrow> int \<Rightarrow> error + FibEntry" where
  "fib_get fib p =
     (case List.find (\<lambda>e. fib_path_id e = p) fib of
        None \<Rightarrow> Inl IndexError
      | Some e \<Rightarrow> Inr e)"

section \<open>Statistical multiplexing scheme (mux_statistical.py)\<close>

text \<open>
  \<^verbatim>\<open>has_intersect_tmp_path_ids(epr0, epr1)\<close>: the second argument is any iterable of
  path_ids (a frozenset or a list); the model passes the set of its elements.
\<close>

definition has_intersect_tmp_path_ids :: "int fset option \<Rightarrow> int set option \<Rightarrow> bool" where
  "has_intersect_tmp_path_ids epr0 epr1 =
     (case epr0 of
        None \<Rightarrow> False
      | Some s0 \<Rightarrow>
          (case epr1 of
             None \<Rightarrow> False
           | Some s1 \<Rightarrow> fset s0 \<inter> s1 \<noteq> {}))"

definition intersect_tmp_path_ids :: "'t epr \<Rightarrow> 't epr \<Rightarrow> error + int fset" where
  "intersect_tmp_path_ids epr0 epr1 =
     (case tmp_path_ids epr0 of
        None \<Rightarrow> Inl AssertionError
      | Some s0 \<Rightarrow>
          (case tmp_path_ids epr1 of
             None \<Rightarrow> Inl AssertionError
           | Some s1 \<Rightarrow>
               (let path_ids = s0 |\<inter>| s1
                in if path_ids = {||} then Inl Exception else Inr path_ids)))"

text \<open>
  \<^verbatim>\<open>MuxSchemeStatistical\<close> (with its base \<^verbatim>\<open>MuxSchemeDynamicBase\<close>): the
  \<^verbatim>\<open>defaultdict\<close> from channel names to lists of path_ids, and the flag
  \<^verbatim>\<open>coordinated_decisions\<close>.
\<close>

record MuxSchemeStatistical =
  qchannel_paths_map :: "string \<rightharpoonup> int list"
  coordinated_decisions :: bool

text \<open>
  Reading \<^verbatim>\<open>self.qchannel_paths_map[name]\<close> on the \<^verbatim>\<open>defaultdict\<close> gives the empty
  list for a missing key.
\<close>

definition paths_of :: "MuxSchemeStatistical \<Rightarrow> string \<Rightarrow> int list" where
  "paths_of mux ch = (case qchannel_paths_map mux ch of None \<Rightarrow> [] | Some ps \<Rightarrow> ps)"

text \<open>
  \<^verbatim>\<open>install_path_neighbor\<close> and \<^verbatim>\<open>uninstall_path_neighbor\<close>: the arguments
  \<^verbatim>\<open>instructions\<close>, \<^verbatim>\<open>direction\<close> and \<^verbatim>\<open>neighbor\<close> are discarded by the source.
  \<^verbatim>\<open>list.remove\<close> removes the first occurrence and raises \<^verbatim>\<open>ValueError\<close> when there
  is none (the key that the \<^verbatim>\<open>defaultdict\<close> has then created stays behind, mapped to
  the empty list; an error result does not carry the scheme).
\<close>

definition install_path_neighbor ::
  "MuxSchemeStatistical \<Rightarrow> FibEntry \<Rightarrow> string \<Rightarrow> MuxSchemeStatistical" where
  "install_path_neighbor mux fib_entry ch =
     mux\<lparr>qchannel_paths_map :=
       (qchannel_paths_map mux)(ch \<mapsto> paths_of mux ch @ [fib_path_id fib_entry])\<rparr>"

definition uninstall_path_neighbor ::
  "MuxSchemeStatistical \<Rightarrow> FibEntry \<Rightarrow> string \<Rightarrow> error + MuxSchemeStatistical" where
  "uninstall_path_neighbor mux fib_entry ch =
     (let paths = paths_of mux ch
      in if fib_path_id fib_entry \<notin> set paths then Inl ValueError
         else
           (let paths' = remove1 (fib_path_id fib_entry) paths
            in if length paths' = 0
               then Inr (mux\<lparr>qchannel_paths_map := (qchannel_paths_map mux)(ch := None)\<rparr>)
               else Inr (mux\<lparr>qchannel_paths_map := (qchannel_paths_map mux)(ch \<mapsto> paths')\<rparr>)))"

text \<open>
  \<^verbatim>\<open>swapping_succeeded\<close> and \<^verbatim>\<open>su_parallel_succeeded\<close> assign the candidate set of
  the merged pair; the updated pair is returned.
\<close>

definition swapping_succeeded :: "'t epr \<Rightarrow> 't epr \<Rightarrow> 't epr \<Rightarrow> error + 't epr" where
  "swapping_succeeded prev_epr next_epr new_epr =
     (case intersect_tmp_path_ids prev_epr next_epr of
        Inl e \<Rightarrow> Inl e
      | Inr path_ids \<Rightarrow> Inr (new_epr\<lparr>tmp_path_ids := Some path_ids\<rparr>))"

definition su_parallel_succeeded :: "'t epr \<Rightarrow> 't epr \<Rightarrow> 't epr \<Rightarrow> error + 't epr" where
  "su_parallel_succeeded merged_epr new_epr other_epr =
     (case intersect_tmp_path_ids new_epr other_epr of
        Inl e \<Rightarrow> Inl e
      | Inr path_ids \<Rightarrow> Inr (merged_epr\<lparr>tmp_path_ids := Some path_ids\<rparr>))"

definition su_parallel_has_conflict ::
  "MuxSchemeStatistical \<Rightarrow> 't epr \<Rightarrow> int \<Rightarrow> error + bool" where
  "su_parallel_has_conflict mux my_new_epr su_path_id =
     (case tmp_path_ids my_new_epr of
        None \<Rightarrow> Inl AssertionError
      | Some s \<Rightarrow>
          if su_path_id |\<notin>| s
          then (if coordinated_decisions mux then Inl AssertionError else Inr True)
          else Inr False)"

section \<open>Quantum memory\<close>

text \<open>
  Modelled from the spec: the class \<^verbatim>\<open>QuantumMemory\<close> lives in
  \<^verbatim>\<open>mqns/entity/memory.py\<close>. It is a slot array of capacity \<open>capacity\<close>; every slot
  holds a \<^verbatim>\<open>MemoryQubit\<close> and at most one occupant. A slot is referred to by its
  position in \<open>storage\<close>. \<open>usage\<close> counts the occupied slots (the test suite reads it
  as \<^verbatim>\<open>count\<close>). \<open>decoherence_delay\<close> is \<open>None\<close> for a decoherence rate of zero and
  otherwise the deterministic delay after which a stored pair decoheres;
  \<open>decoherence_schedule\<close> collects the decoherence events that writes schedule
  (slot, name of the occupant, time).
\<close>

record 't QuantumMemory =
  capacity :: nat
  decoherence_delay :: "'t option"
  storage :: "(MemoryQubit \<times> 't epr option) list"
  usage :: nat
  decoherence_schedule :: "(nat \<times> string \<times> 't) list"




text \<open>
  Modelled from the spec: \<^verbatim>\<open>find(predicate, has_epr=False)\<close> yields the matching
  slots in storage order; with \<^verbatim>\<open>has_epr\<close> only occupied slots are considered. Each
  result carries the position of its slot.
\<close>

definition memory_find ::
  "(MemoryQubit \<Rightarrow> 't epr option \<Rightarrow> bool) \<Rightarrow> bool \<Rightarrow> 't QuantumMemory
     \<Rightarrow> (nat \<times> MemoryQubit \<times> 't epr option) list" where
  "memory_find predicate has_epr m =
     filter (\<lambda>(i, q, v). (has_epr \<longrightarrow> v \<noteq> None) \<and> predicate q v)
       (enumerate 0 (storage m))"

text \<open>
  Modelled from the spec: \<^verbatim>\<open>get(addr, must)\<close> is the non-destructive read of a
  slot; an empty slot is a not-found error when \<^verbatim>\<open>must\<close> is set (the test suite
  expects \<^verbatim>\<open>ValueError\<close> for an address) and no result otherwise.
\<close>

definition memory_get ::
  "'t QuantumMemory \<Rightarrow> nat \<Rightarrow> bool \<Rightarrow> error + (MemoryQubit \<times> 't epr) option" where
  "memory_get m a must =
     (if a < length (storage m)
      then (case snd (storage m ! a) of
              Some e \<Rightarrow> Inr (Some (fst (storage m ! a), e))
            | None \<Rightarrow> if must then Inl ValueError else Inr None)
      else if must then Inl ValueError else Inr None)"

text \<open>
  Modelled from the spec: \<^verbatim>\<open>write(content, path_id?, key?)\<close> stores the content
  into the first free slot that matches the given path_id and key constraints (any
  free slot if unconstrained) and returns the slot, or returns no result and changes
  nothing if there is no such slot. With a nonzero decoherence rate the write sets
  the decoherence time and schedules the decoherence event.
\<close>

definition slot_matches ::
  "int option \<Rightarrow> string option \<Rightarrow> MemoryQubit \<times> 't epr option \<Rightarrow> bool" where
  "slot_matches pid k slot =
     (snd slot = None
      \<and> (pid = None \<or> path_id (fst slot) = pid)
      \<and> (k = None \<or> active (fst slot) = k))"

definition memory_write ::
  "('t::plus) QuantumMemory \<Rightarrow> 't epr \<Rightarrow> int option \<Rightarrow> string option
     \<Rightarrow> nat option \<times> 't QuantumMemory" where
  "memory_write m content pid k =
     (case find_index (slot_matches pid k) (storage m) of
        None \<Rightarrow> (None, m)
      | Some i \<Rightarrow>
          (case decoherence_delay m of
             None \<Rightarrow>
               (Some i,
                m\<lparr>storage := (storage m)[i := (fst (storage m ! i), Some content)],
                  usage := usage m + 1\<rparr>)
           | Some d \<Rightarrow>
               (let t = creation_time content + d
                in (Some i,
                    m\<lparr>storage := (storage m)[i := (fst (storage m ! i),
                                     Some (content\<lparr>decoherence_time := Some t\<rparr>))],
                      usage := usage m + 1,
                      decoherence_schedule :=
                        decoherence_schedule m @ [(i, name content, t)]\<rparr>))))"



section \<open>Statistical multiplexing scheme: eligibility and swap candidates\<close>

text \<open>
  Calls into the forwarder (\<^verbatim>\<open>self.fw\<close>, whose class is not part of these
  sources) are recorded in the order in which they are made.
\<close>

datatype fw_call =
    release_qubit nat bool
  | qubit_is_eligible nat "FibEntry option"

text \<open>A list comprehension whose body may raise stops at the first exception.\<close>

fun map_result :: "('a \<Rightarrow> error + 'b) \<Rightarrow> 'a list \<Rightarrow> error + 'b list" where
  "map_result f [] = Inr []"
| "map_result f (x # xs) =
     (case f x of
        Inl e \<Rightarrow> Inl e
      | Inr y \<Rightarrow> (case map_result f xs of Inl e \<Rightarrow> Inl e | Inr ys \<Rightarrow> Inr (y # ys)))"

definition calc_rank_diff :: "Fib \<Rightarrow> string \<Rightarrow> int \<Rightarrow> error + int" where
  "calc_rank_diff fib neighbor p =
     (case fib_get fib p of
        Inl e \<Rightarrow> Inl e
      | Inr fib_entry \<Rightarrow>
          (case find_index_and_swap_rank fib_entry neighbor of
             Inl e \<Rightarrow> Inl e
           | Inr (_, p_rank) \<Rightarrow> Inr (own_swap_rank fib_entry - p_rank)))"

text \<open>
  \<^verbatim>\<open>_can_enter_purif\<close>: the candidate set is iterated in ascending order (the result
  does not depend on the order, since all differences must be equal). \<^verbatim>\<open>min\<close> of
  an empty list raises \<^verbatim>\<open>ValueError\<close>.
\<close>

definition can_enter_purif :: "Fib \<Rightarrow> 't epr \<Rightarrow> string \<Rightarrow> error + bool" where
  "can_enter_purif fib e neighbor =
     (case tmp_path_ids e of
        None \<Rightarrow> Inl AssertionError
      | Some s \<Rightarrow>
          (case map_result (calc_rank_diff fib neighbor) (sorted_list_of_fset s) of
             Inl err \<Rightarrow> Inl err
           | Inr rank_diff \<Rightarrow>
               (case rank_diff of
                  [] \<Rightarrow> Inl ValueError
                | d # ds \<Rightarrow>
                    if fold min ds d \<noteq> fold max ds d then Inl AssertionError
                    else Inr (d \<le> 0))))"

text \<open>
  \<^verbatim>\<open>_qubit_is_entangled_0\<close> (of \<^verbatim>\<open>MuxSchemeDynamicBase\<close>): the path_ids installed on
  the qubit's channel, read with \<^verbatim>\<open>dict.get(name, [])\<close>; when there is none the
  forwarder is asked to release the qubit. The qubit is the one of slot \<open>a\<close>.
\<close>

definition qubit_is_entangled_0 ::
  "MuxSchemeStatistical \<Rightarrow> MemoryQubit \<Rightarrow> nat \<Rightarrow> error + (int list \<times> fw_call list)" where
  "qubit_is_entangled_0 mux qubit a =
     (if path_id qubit \<noteq> None then Inl AssertionError
      else
        (case qchannel qubit of
           None \<Rightarrow> Inl AssertionError
         | Some ch \<Rightarrow>
             (let possible_path_ids =
                    (case qchannel_paths_map mux ch of None \<Rightarrow> [] | Some ps \<Rightarrow> ps)
              in if possible_path_ids = []
                 then Inr (possible_path_ids, [release_qubit a True])
                 else Inr (possible_path_ids, []))))"

text \<open>
  The branch of \<^verbatim>\<open>qubit_is_entangled\<close> that sets or checks the candidate set of the
  stored pair.
\<close>

definition set_tmp_path_ids ::
  "MuxSchemeStatistical \<Rightarrow> 't epr \<Rightarrow> int fset \<Rightarrow> error + 't epr" where
  "set_tmp_path_ids mux e possible_path_ids =
     (case tmp_path_ids e of
        None \<Rightarrow> Inr (e\<lparr>tmp_path_ids := Some possible_path_ids\<rparr>)
      | Some s \<Rightarrow>
          if coordinated_decisions mux
          then (if s |\<subseteq>| possible_path_ids then Inr e else Inl AssertionError)
          else (if s = possible_path_ids then Inr e else Inl AssertionError))"

text \<open>
  \<^verbatim>\<open>qubit_is_entangled\<close>. The stored pair and the qubit are objects mutated in
  place, so the memory is returned with the slot updated, together with the calls
  made to the forwarder. A slot position outside the memory refers to no qubit.
\<close>

definition qubit_is_entangled ::
  "MuxSchemeStatistical \<Rightarrow> Fib \<Rightarrow> 't QuantumMemory \<Rightarrow> nat \<Rightarrow> string
     \<Rightarrow> error + ('t QuantumMemory \<times> fw_call list)" where
  "qubit_is_entangled mux fib m a neighbor =
     (if length (storage m) \<le> a then Inl IndexError
      else
        (let qubit = fst (storage m ! a)
         in case qubit_is_entangled_0 mux qubit a of
              Inl err \<Rightarrow> Inl err
            | Inr (possible, calls) \<Rightarrow>
                if fset_of_list possible = {||} then Inr (m, calls)
                else
                  (case memory_get m a True of
                     Inl err \<Rightarrow> Inl err
                   | Inr None \<Rightarrow> Inl ValueError
                   | Inr (Some (_, e)) \<Rightarrow>
                       (case set_tmp_path_ids mux e (fset_of_list possible) of
                          Inl err \<Rightarrow> Inl err
                        | Inr e' \<Rightarrow>
                            (case can_enter_purif fib e' neighbor of
                               Inl err \<Rightarrow> Inl err
                             | Inr ok \<Rightarrow>
                                 if ok
                                 then Inr (m\<lparr>storage := (storage m)
                                             [a := (qubit\<lparr>state := ELIGIBLE\<rparr>, Some e')]\<rparr>,
                                           calls @ [qubit_is_eligible a None])
                                 else Inr (m\<lparr>storage := (storage m)[a := (qubit, Some e')]\<rparr>,
                                           calls))))))"

text \<open>
  \<^verbatim>\<open>select_swap_qubit\<close> (select.py): \<open>fn = None\<close> selects the first candidate;
  otherwise the strategy function is applied to the non-empty candidate list.
  \<^verbatim>\<open>random.choice\<close> takes its random index as a parameter.
\<close>

type_synonym 't candidate = "nat \<times> MemoryQubit \<times> 't epr"

type_synonym 't SelectSwapQubit =
  "(MemoryQubit \<Rightarrow> 't epr \<Rightarrow> FibEntry option \<Rightarrow> 't candidate list \<Rightarrow> 't candidate) option"

definition random_choice :: "nat \<Rightarrow> 'a list \<Rightarrow> error + 'a" where
  "random_choice rnd xs =
     (if xs = [] then Inl IndexError else Inr (xs ! (rnd mod length xs)))"

definition select_swap_qubit ::
  "'t SelectSwapQubit \<Rightarrow> MemoryQubit \<Rightarrow> 't epr \<Rightarrow> FibEntry option \<Rightarrow> 't candidate list
     \<Rightarrow> 't candidate option" where
  "select_swap_qubit fn qubit e fib_entry candidates =
     (case fn of
        None \<Rightarrow> (case candidates of [] \<Rightarrow> None | c # _ \<Rightarrow> Some c)
      | Some f \<Rightarrow>
          (let l = candidates
           in if length l = 0 then None else Some (f qubit e fib_entry l)))"

definition select_swap_qubit_random ::
  "nat \<Rightarrow> MemoryQubit \<Rightarrow> 't epr \<Rightarrow> FibEntry option \<Rightarrow> 't candidate list \<Rightarrow> 't candidate" where
  "select_swap_qubit_random rnd qubit e fib_entry candidates =
     candidates ! (rnd mod length candidates)"

text \<open>
  \<^verbatim>\<open>find_swap_candidate\<close>. \<open>fn\<close> is the forwarder's selection strategy
  (\<^verbatim>\<open>self.fw._select_swap_qubit\<close>) and \<open>rnd\<close> the random index of
  \<^verbatim>\<open>random.choice\<close>. The two pairs are objects mutated in place: the result holds
  the selected slot and qubit, the FIB entry, and both pairs as they are after the
  call.
\<close>

record 't swap_candidate =
  sc_slot :: nat
  sc_qubit :: MemoryQubit
  sc_fib_entry :: FibEntry
  sc_epr :: "'t epr"
  sc_epr1 :: "'t epr"

definition matched_channels :: "MuxSchemeStatistical \<Rightarrow> string \<Rightarrow> 't epr \<Rightarrow> string set" where
  "matched_channels mux own_channel e =
     {channel. \<exists>path_ids. qchannel_paths_map mux channel = Some path_ids
        \<and> channel \<noteq> own_channel
        \<and> has_intersect_tmp_path_ids (tmp_path_ids e) (Some (set path_ids))}"

definition swap_candidates ::
  "MuxSchemeStatistical \<Rightarrow> 't QuantumMemory \<Rightarrow> string \<Rightarrow> 't epr \<Rightarrow> 't candidate list" where
  "swap_candidates mux m own_channel e =
     List.map_filter (\<lambda>(i, q, v). case v of None \<Rightarrow> None | Some e1 \<Rightarrow> Some (i, q, e1))
       (memory_find
          (\<lambda>q v. state q = ELIGIBLE
             \<and> (case qchannel q of
                  None \<Rightarrow> False
                | Some ch \<Rightarrow> ch \<in> matched_channels mux own_channel e)
             \<and> has_intersect_tmp_path_ids (tmp_path_ids e)
                  (case v of None \<Rightarrow> None | Some e1 \<Rightarrow> map_option fset (tmp_path_ids e1)))
          True m)"

definition find_swap_candidate ::
  "MuxSchemeStatistical \<Rightarrow> Fib \<Rightarrow> 't SelectSwapQubit \<Rightarrow> nat \<Rightarrow> 't QuantumMemory
     \<Rightarrow> MemoryQubit \<Rightarrow> 't epr \<Rightarrow> FibEntry option \<Rightarrow> error + 't swap_candidate option" where
  "find_swap_candidate mux fib fn rnd m qubit e fib_entry =
     (case qchannel qubit of
        None \<Rightarrow> Inl AssertionError
      | Some own_channel \<Rightarrow>
          (case select_swap_qubit fn qubit e fib_entry (swap_candidates mux m own_channel e) of
             None \<Rightarrow> Inr None
           | Some (i1, mq1, epr1) \<Rightarrow>
               (case intersect_tmp_path_ids e epr1 of
                  Inl err \<Rightarrow> Inl err
                | Inr path_ids \<Rightarrow>
                    (case random_choice rnd (sorted_list_of_fset path_ids) of
                       Inl err \<Rightarrow> Inl err
                     | Inr chosen_path_id \<Rightarrow>
                         (let e' = (if coordinated_decisions mux
                                    then e\<lparr>tmp_path_ids := Some {|chosen_path_id|}\<rparr> else e);
                              epr1' = (if coordinated_decisions mux
                                       then epr1\<lparr>tmp_path_ids := Some {|chosen_path_id|}\<rparr>
                                       else epr1)
                          in (case fib_get fib chosen_path_id of
                                Inl err \<Rightarrow> Inl err
                              | Inr fe \<Rightarrow>
                                  Inr (Some \<lparr>sc_slot = i1, sc_qubit = mq1, sc_fib_entry = fe,
                                             sc_epr = e', sc_epr1 = epr1'\<rparr>)))))))"

section \<open>Link layer (link_layer.py)\<close>

datatype cmd = RESERVE_QUBIT | RESERVE_QUBIT_OK

record ReserveMsg =
  msg_cmd :: cmd
  msg_path_id :: "int option"
  msg_key :: string

record ReservationRequest =
  req_key :: string
  req_path_id :: "int option"
  req_cchannel :: string
  req_from_node :: string
  req_qchannel :: string

text \<open>
  A classical packet handed to \<^verbatim>\<open>cchannel.send\<close>: the channel, the message, source,
  destination and next hop.
\<close>

record ClassicPacket =
  pkt_cchannel :: string
  pkt_msg :: ReserveMsg
  pkt_src :: string
  pkt_dest :: string
  pkt_next_hop :: string

text \<open>
  Events handed to \<^verbatim>\<open>simulator.add_event\<close>: \<^verbatim>\<open>LinkArchSuccessEvent(node, epr, t)\<close>
  and \<^verbatim>\<open>QubitEntangledEvent(node, neighbor, qubit, t)\<close>, the qubit given by its slot.
\<close>

datatype 't event =
    LinkArchSuccessEvent string "'t epr" 't
  | QubitEntangledEvent string string nat 't

text \<open>The events handled by \<^verbatim>\<open>handle_decoh_rel\<close>, carrying the qubit's slot.\<close>

datatype decoh_rel_event = QubitDecoheredEvent nat | QubitReleasedEvent nat

text \<open>
  The state of a \<^verbatim>\<open>LinkLayer\<close> and of the collaborators it acts on. The attributes
  of the class: \<open>own\<close>, \<open>init_fidelity\<close>, \<open>memory\<close>, \<open>active_channels\<close>,
  \<open>pending_init_reservation\<close>, \<open>fifo_reservation_req\<close>, \<open>etg_count\<close>, \<open>decoh_count\<close>.
  The collaborators, whose classes are not part of these sources, are parameters:
  \<open>tc\<close> is the simulator's current time; \<open>is_async\<close> and \<open>is_external\<close> are the
  answers of the node's timing mode (\<^verbatim>\<open>is_external()\<close> without argument asks about
  the current time); \<open>find_peer\<close>, \<open>get_qchannel\<close> and \<open>get_cchannel\<close> resolve the
  peer of a classical channel and the channels toward a neighbor; \<open>events\<close> is the
  list of events added to the simulator and \<open>sent\<close> the list of packets sent, both
  in order.
\<close>

record 't LinkLayer =
  own :: string
  init_fidelity :: real
  memory :: "'t QuantumMemory"
  active_channels :: "(string \<times> int option) \<rightharpoonup> (string \<times> nat)"
  pending_init_reservation :: "string \<rightharpoonup> (string \<times> string \<times> nat)"
  fifo_reservation_req :: "ReservationRequest list"
  etg_count :: nat
  decoh_count :: nat
  tc :: 't
  is_async :: bool
  is_external :: "'t \<Rightarrow> bool"
  find_peer :: "string \<rightharpoonup> string"
  get_qchannel :: "string \<rightharpoonup> string"
  get_cchannel :: "string \<rightharpoonup> string"
  events :: "'t event list"
  sent :: "ClassicPacket list"

definition update_qubit ::
  "nat \<Rightarrow> (MemoryQubit \<Rightarrow> MemoryQubit) \<Rightarrow> 't LinkLayer \<Rightarrow> 't LinkLayer" where
  "update_qubit a f s =
     s\<lparr>memory := (memory s)\<lparr>storage := (storage (memory s))
        [a := (f (fst (storage (memory s) ! a)), snd (storage (memory s) ! a))]\<rparr>\<rparr>"

text \<open>
  \<^verbatim>\<open>start_reservation\<close>: \<open>k\<close> is the fresh key \<^verbatim>\<open>uuid.uuid4().hex\<close>. A missing
  classical channel toward the next hop raises.
\<close>

definition start_reservation ::
  "'t LinkLayer \<Rightarrow> string \<Rightarrow> string \<Rightarrow> string \<Rightarrow> nat \<Rightarrow> error + 't LinkLayer" where
  "start_reservation s k next_hop qch a =
     (if k \<in> dom (pending_init_reservation s) then Inl AssertionError
      else
        (let s1 = update_qubit a (\<lambda>q. q\<lparr>state := ACTIVE, active := Some k\<rparr>) s;
             s2 = s1\<lparr>pending_init_reservation :=
                       (pending_init_reservation s1)(k \<mapsto> (qch, next_hop, a))\<rparr>;
             msg = \<lparr>msg_cmd = RESERVE_QUBIT,
                    msg_path_id = path_id (fst (storage (memory s2) ! a)), msg_key = k\<rparr>
         in case get_cchannel s2 next_hop of
              None \<Rightarrow> Inl Exception
            | Some cchannel \<Rightarrow>
                Inr (s2\<lparr>sent := sent s2 @
                       [\<lparr>pkt_cchannel = cchannel, pkt_msg = msg, pkt_src = own s2,
                         pkt_dest = next_hop, pkt_next_hop = next_hop\<rparr>]\<rparr>)))"

text \<open>
  \<^verbatim>\<open>try_accept_reservation\<close>. \<^verbatim>\<open>not q.active\<close> holds for \<^verbatim>\<open>None\<close> and for the empty
  string.
\<close>

definition py_not :: "string option \<Rightarrow> bool" where
  "py_not v = (v = None \<or> v = Some [])"

definition reservable :: "ReservationRequest \<Rightarrow> MemoryQubit \<Rightarrow> 't epr option \<Rightarrow> bool" where
  "reservable req q v =
     (v = None
      \<and> py_not (active q)
      \<and> qchannel q = Some (req_qchannel req)
      \<and> path_id q = req_path_id req)"

definition try_accept_reservation ::
  "'t LinkLayer \<Rightarrow> ReservationRequest \<Rightarrow> bool \<times> 't LinkLayer" where
  "try_accept_reservation s req =
     (case memory_find (reservable req) False (memory s) of
        [] \<Rightarrow> (False, s)
      | (a, _, _) # _ \<Rightarrow>
          (let s1 = update_qubit a (\<lambda>q. q\<lparr>state := ACTIVE\<rparr>) s;
               s2 = update_qubit a (\<lambda>q. q\<lparr>state := RESERVED, active := Some (req_key req)\<rparr>) s1;
               msg = \<lparr>msg_cmd = RESERVE_QUBIT_OK, msg_path_id = req_path_id req,
                      msg_key = req_key req\<rparr>
           in (True,
               s2\<lparr>sent := sent s2 @
                 [\<lparr>pkt_cchannel = req_cchannel req, pkt_msg = msg, pkt_src = own s2,
                   pkt_dest = req_from_node req, pkt_next_hop = req_from_node req\<rparr>]\<rparr>)))"

text \<open>
  \<^verbatim>\<open>handle_reserve_req(msg, cchannel)\<close>: the peer must be a quantum node, and the
  quantum channel toward it must exist.
\<close>

definition handle_reserve_req ::
  "'t LinkLayer \<Rightarrow> ReserveMsg \<Rightarrow> string \<Rightarrow> error + 't LinkLayer" where
  "handle_reserve_req s msg cchannel =
     (case find_peer s cchannel of
        None \<Rightarrow> Inl AssertionError
      | Some from_node \<Rightarrow>
          (case get_qchannel s from_node of
             None \<Rightarrow> Inl Exception
           | Some qch \<Rightarrow>
               (let req = \<lparr>req_key = msg_key msg, req_path_id = msg_path_id msg,
                           req_cchannel = cchannel, req_from_node = from_node,
                           req_qchannel = qch\<rparr>
                in case try_accept_reservation s req of
                     (True, s') \<Rightarrow> Inr s'
                   | (False, s') \<Rightarrow>
                       Inr (s'\<lparr>fifo_reservation_req := fifo_reservation_req s' @ [req]\<rparr>))))"

text \<open>
  \<^verbatim>\<open>generate_entanglement\<close>. The quantum channel enters only through its link
  architecture: \<open>k\<close> is the attempt number sampled by \<^verbatim>\<open>np.random.geometric(p)\<close>,
  \<open>delays\<close> is the result of \<^verbatim>\<open>qchannel.link_arch.delays(k, ...)\<close> and \<open>nm\<close> the
  fresh name \<^verbatim>\<open>uuid.uuid4().hex\<close> of the pair. The qubit is the one of slot \<open>a\<close>.
\<close>

definition generate_entanglement ::
  "('t::{plus,ord}) LinkLayer \<Rightarrow> nat \<Rightarrow> 't \<times> 't \<times> 't \<Rightarrow> string \<Rightarrow> string \<Rightarrow> nat
     \<Rightarrow> 't LinkLayer" where
  "generate_entanglement s k delays nm next_hop a =
     (case delays of (d_epr_creation, d_notify_a, d_notify_b) \<Rightarrow>
        (let t_epr_creation = tc s + d_epr_creation;
             t_notify_a = tc s + (d_epr_creation + d_notify_a);
             t_notify_b = tc s + (d_epr_creation + d_notify_b);
             e = \<lparr>name = nm, fidelity = init_fidelity s, creation_time = t_epr_creation,
                  decoherence_time = None, src = Some (own s), dst = Some next_hop,
                  attempts = k, key = active (fst (storage (memory s) ! a)),
                  tmp_path_ids = None\<rparr>
         in if \<not> is_external s (max t_notify_a t_notify_b) then s
            else s\<lparr>events := events s @
                     [LinkArchSuccessEvent (own s) e t_notify_a,
                      LinkArchSuccessEvent next_hop e t_notify_b]\<rparr>))"

text \<open>\<^verbatim>\<open>handle_success_entangle\<close>, for the pair \<open>e\<close> of the event.\<close>

definition handle_success_entangle ::
  "('t::{plus,ord}) LinkLayer \<Rightarrow> 't epr \<Rightarrow> error + 't LinkLayer" where
  "handle_success_entangle s e =
     (if \<not> is_external s (tc s) then Inl AssertionError
      else
        (let neighbor = (if src e = Some (own s) then dst e else src e);
             is_primary = (src e = Some (own s))
         in case neighbor of
              None \<Rightarrow> Inl AssertionError
            | Some nb \<Rightarrow>
                (let s1 = (if is_primary then s\<lparr>etg_count := etg_count s + 1\<rparr> else s)
                 in if \<not> (case decoherence_time e of None \<Rightarrow> True | Some t \<Rightarrow> tc s1 < t)
                    then Inl AssertionError
                    else
                      (case memory_write (memory s1) e None (key e) of
                         (None, _) \<Rightarrow> Inl Exception
                       | (Some a, m') \<Rightarrow>
                           (let s2 = update_qubit a (\<lambda>q. q\<lparr>state := ENTANGLED0\<rparr>)
                                       (s1\<lparr>memory := m'\<rparr>)
                            in Inr (s2\<lparr>events := events s2 @
                                      [QubitEntangledEvent (own s2) nb a (tc s2)]\<rparr>))))))"

text \<open>
  \<^verbatim>\<open>handle_decoh_rel\<close>. \<open>event_qubit\<close> is \<^verbatim>\<open>event.qubit\<close> and \<open>is_decoh\<close> the test
  \<^verbatim>\<open>isinstance(event, QubitDecoheredEvent)\<close>. \<open>reset_qubit\<close> is the first part of the
  handler: the decoherence counter, and the qubit set to \<^verbatim>\<open>RAW\<close> with its key
  cleared. \<open>k\<close> is the fresh key that \<^verbatim>\<open>start_reservation\<close> draws if it is called.
  The handler returns \<^verbatim>\<open>True\<close>; the model returns the state.
\<close>

definition event_qubit :: "decoh_rel_event \<Rightarrow> nat" where
  "event_qubit ev = (case ev of QubitDecoheredEvent a \<Rightarrow> a | QubitReleasedEvent a \<Rightarrow> a)"

definition is_decoh :: "decoh_rel_event \<Rightarrow> bool" where
  "is_decoh ev = (case ev of QubitDecoheredEvent _ \<Rightarrow> True | QubitReleasedEvent _ \<Rightarrow> False)"

definition reset_qubit :: "'t LinkLayer \<Rightarrow> decoh_rel_event \<Rightarrow> 't LinkLayer" where
  "reset_qubit s ev =
     update_qubit (event_qubit ev) (\<lambda>q. q\<lparr>state := RAW, active := None\<rparr>)
       (if is_decoh ev then s\<lparr>decoh_count := decoh_count s + 1\<rparr> else s)"

definition handle_decoh_rel ::
  "'t LinkLayer \<Rightarrow> string \<Rightarrow> decoh_rel_event \<Rightarrow> error + 't LinkLayer" where
  "handle_decoh_rel s k ev =
     (let s2 = reset_qubit s ev;
          qubit = fst (storage (memory s2) ! event_qubit ev)
      in case qchannel qubit of
           None \<Rightarrow> Inl AssertionError
         | Some qch \<Rightarrow>
             (case active_channels s2 (qch, path_id qubit) of
                None \<Rightarrow>
                  (case fifo_reservation_req s2 of
                     [] \<Rightarrow> Inr s2
                   | req # rest \<Rightarrow>
                       (case try_accept_reservation s2 req of
                          (True, s3) \<Rightarrow> Inr (s3\<lparr>fifo_reservation_req := rest\<rparr>)
                        | (False, s3) \<Rightarrow> Inr s3))
              | Some (next_hop, _) \<Rightarrow>
                  if is_async s2 then start_reservation s2 k next_hop qch (event_qubit ev)
                  else if is_decoh ev then Inl Exception
                  else Inr s2))"

text \<open>
  The qubits that \<^verbatim>\<open>try_accept_reservation\<close> looks for: \<open>first_reservable s req a\<close>
  says that slot \<open>a\<close> holds the first qubit of the memory that is unoccupied, not
  part of an active reservation, assigned to the request's quantum channel and
  allocated to the request's path_id; \<open>none_reservable s req\<close> says that the memory
  holds no such qubit.
\<close>

definition first_reservable :: "'t LinkLayer \<Rightarrow> ReservationRequest \<Rightarrow> nat \<Rightarrow> bool" where
  "first_reservable s req a =
     (a < length (storage (memory s))
      \<and> reservable req (fst (storage (memory s) ! a)) (snd (storage (memory s) ! a))
      \<and> (\<forall>j < a. \<not> reservable req (fst (storage (memory s) ! j))
                                      (snd (storage (memory s) ! j))))"

definition none_reservable :: "'t LinkLayer \<Rightarrow> ReservationRequest \<Rightarrow> bool" where
  "none_reservable s req =
     (\<forall>j < length (storage (memory s)).
        \<not> reservable req (fst (storage (memory s) ! j)) (snd (storage (memory s) ! j)))"

section \<open>Example values\<close>

text \<open>
  Concrete pairs, FIB entries, schemes, memories and link layers on which the
  theorems are instantiated.
\<close>

definition ex_epr :: "int epr" where
  "ex_epr = \<lparr>name = ''epr'', fidelity = 1, creation_time = 0, decoherence_time = None,
             src = None, dst = None, attempts = 1, key = None, tmp_path_ids = None\<rparr>"

definition ex_fib_entry :: "int \<Rightarrow> FibEntry" where
  "ex_fib_entry p = \<lparr>fib_path_id = p, route = [''A'', ''B'', ''C''], swap = [1, 0, 1],
                     purif = [], own_swap_rank = 0\<rparr>"

definition ex_mux :: "bool \<Rightarrow> MuxSchemeStatistical" where
  "ex_mux c = \<lparr>qchannel_paths_map = [''qAB'' \<mapsto> [1, 2], ''qBC'' \<mapsto> [2, 3]],
               coordinated_decisions = c\<rparr>"

definition ex_qubit :: "nat \<Rightarrow> QubitState \<Rightarrow> string \<Rightarrow> string option \<Rightarrow> MemoryQubit" where
  "ex_qubit a st ch k = \<lparr>addr = a, state = st, qchannel = Some ch, path_id = None, active = k\<rparr>"

definition ex_memory :: "(MemoryQubit \<times> int epr option) list \<Rightarrow> int QuantumMemory" where
  "ex_memory slots = \<lparr>capacity = length slots, decoherence_delay = None, storage = slots,
                       usage = length (filter (\<lambda>slot. snd slot \<noteq> None) slots),
                       decoherence_schedule = []\<rparr>"

definition ex_link_layer ::
  "string \<Rightarrow> bool \<Rightarrow> int \<Rightarrow> (MemoryQubit \<times> int epr option) list \<Rightarrow> int LinkLayer" where
  "ex_link_layer node async t slots =
     \<lparr>own = node, init_fidelity = 1, memory = ex_memory slots,
      active_channels = (if node = ''A'' then [(''qAB'', None) \<mapsto> (''B'', 1)] else Map.empty),
      pending_init_reservation = Map.empty, fifo_reservation_req = [],
      etg_count = 0, decoh_count = 0, tc = t, is_async = async,
      is_external = (\<lambda>t'. t' \<le> 10),
      find_peer = [''cAB'' \<mapsto> (if node = ''A'' then ''B'' else ''A'')],
      get_qchannel = [(if node = ''A'' then ''B'' else ''A'') \<mapsto> ''qAB''],
      get_cchannel = [(if node = ''A'' then ''B'' else ''A'') \<mapsto> ''cAB''],
      events = [], sent = []\<rparr>"

definition ex_pair :: "int epr" where
  "ex_pair = \<lparr>name = ''e1'', fidelity = 1, creation_time = 1, decoherence_time = None,
              src = Some ''A'', dst = Some ''B'', attempts = 1, key = Some ''k1'',
              tmp_path_ids = None\<rparr>"

definition ex_swap_memory :: "int QuantumMemory" where
  "ex_swap_memory =
     ex_memory [(ex_qubit 0 ELIGIBLE ''qAB'' (Some ''k1''),
                 Some (ex_pair\<lparr>tmp_path_ids := Some {|1, 2|}\<rparr>)),
                (ex_qubit 1 ENTANGLED0 ''qBC'' (Some ''k2''),
                 Some (ex_pair\<lparr>name := ''e2'', tmp_path_ids := Some {|2, 3|}\<rparr>)),
                (ex_qubit 2 ELIGIBLE ''qBC'' (Some ''k3''),
                 Some (ex_pair\<lparr>name := ''e3'', tmp_path_ids := Some {|2, 3|}\<rparr>))]"

section \<open>Properties of the statistical multiplexing scheme\<close>

text \<open>
  C1. When both inputs of a swap carry a candidate set, \<^verbatim>\<open>swapping_succeeded\<close> and
  \<^verbatim>\<open>su_parallel_succeeded\<close> give the merged pair exactly the intersection of the two
  sets when it is not empty, and raise an exception when it is empty: no pair with
  an empty candidate set is ever returned.
\<close>

theorem C1_intersection_law:
  assumes "tmp_path_ids e0 = Some s0" and "tmp_path_ids e1 = Some s1"
  shows "(s0 |\<inter>| s1 \<noteq> {||} \<longrightarrow>
            swapping_succeeded e0 e1 n = Inr (n\<lparr>tmp_path_ids := Some (s0 |\<inter>| s1)\<rparr>) \<and>
            su_parallel_succeeded n e0 e1 = Inr (n\<lparr>tmp_path_ids := Some (s0 |\<inter>| s1)\<rparr>))
       \<and> (s0 |\<inter>| s1 = {||} \<longrightarrow>
            swapping_succeeded e0 e1 n = Inl Exception \<and>
            su_parallel_succeeded n e0 e1 = Inl Exception)
       \<and> (\<forall>r. swapping_succeeded e0 e1 n = Inr r \<or> su_parallel_succeeded n e0 e1 = Inr r
              \<longrightarrow> tmp_path_ids r \<noteq> Some {||})"
  using assms
  by (auto simp: swapping_succeeded_def su_parallel_succeeded_def intersect_tmp_path_ids_def
           Let_def)

theorem C1_intersection_law_witness:
  "swapping_succeeded (ex_epr\<lparr>tmp_path_ids := Some {|1, 2|}\<rparr>)
     (ex_epr\<lparr>tmp_path_ids := Some {|2, 3|}\<rparr>) ex_epr
     = Inr (ex_epr\<lparr>tmp_path_ids := Some {|2|}\<rparr>)
   \<and> su_parallel_succeeded ex_epr (ex_epr\<lparr>tmp_path_ids := Some {|1|}\<rparr>)
       (ex_epr\<lparr>tmp_path_ids := Some {|3|}\<rparr>) = Inl Exception"
  using C1_intersection_law [of "ex_epr\<lparr>tmp_path_ids := Some {|1, 2|}\<rparr>" "{|1, 2|}"
          "ex_epr\<lparr>tmp_path_ids := Some {|2, 3|}\<rparr>" "{|2, 3|}" ex_epr]
        C1_intersection_law [of "ex_epr\<lparr>tmp_path_ids := Some {|1|}\<rparr>" "{|1|}"
          "ex_epr\<lparr>tmp_path_ids := Some {|3|}\<rparr>" "{|3|}" ex_epr]
  by simp

text \<open>
  C2, as the code has it. For a merged pair with a candidate set: when
  \<^verbatim>\<open>coordinated_decisions\<close> is off, \<^verbatim>\<open>su_parallel_has_conflict\<close> returns normally, and
  returns \<^verbatim>\<open>True\<close> exactly when the path_id is not in the set; a path_id in the set
  gives \<^verbatim>\<open>False\<close> in either mode; with \<^verbatim>\<open>coordinated_decisions\<close> on, a path_id outside
  the set fails the assertion.
\<close>

theorem C2_conflict_detection:
  assumes "tmp_path_ids e = Some s"
  shows "(\<not> coordinated_decisions mux \<longrightarrow>
            su_parallel_has_conflict mux e p = Inr (p |\<notin>| s))
       \<and> (p |\<in>| s \<longrightarrow> su_parallel_has_conflict mux e p = Inr False)
       \<and> (coordinated_decisions mux \<and> p |\<notin>| s \<longrightarrow>
            su_parallel_has_conflict mux e p = Inl AssertionError)"
  using assms by (simp add: su_parallel_has_conflict_def)

theorem C2_conflict_detection_witness:
  "su_parallel_has_conflict (ex_mux False) (ex_epr\<lparr>tmp_path_ids := Some {|1, 2|}\<rparr>) 3 = Inr True
   \<and> su_parallel_has_conflict (ex_mux True) (ex_epr\<lparr>tmp_path_ids := Some {|1, 2|}\<rparr>) 2 = Inr False"
  using C2_conflict_detection [of "ex_epr\<lparr>tmp_path_ids := Some {|1, 2|}\<rparr>" "{|1, 2|}" "ex_mux False" 3]
        C2_conflict_detection [of "ex_epr\<lparr>tmp_path_ids := Some {|1, 2|}\<rparr>" "{|1, 2|}" "ex_mux True" 2]
  by (simp add: ex_mux_def)

text \<open>
  With \<^verbatim>\<open>coordinated_decisions\<close> on, the conflict case does not return \<^verbatim>\<open>True\<close>: it
  raises.
\<close>

theorem C2_coordinated_conflict_counterexample:
  "tmp_path_ids (ex_epr\<lparr>tmp_path_ids := Some {|1, 2|}\<rparr>) = Some {|1, 2|}
   \<and> 3 |\<notin>| {|1, 2 :: int|}
   \<and> su_parallel_has_conflict (ex_mux True) (ex_epr\<lparr>tmp_path_ids := Some {|1, 2|}\<rparr>) 3
       = Inl AssertionError
   \<and> su_parallel_has_conflict (ex_mux True) (ex_epr\<lparr>tmp_path_ids := Some {|1, 2|}\<rparr>) 3
       \<noteq> Inr True"
  by (simp add: su_parallel_has_conflict_def ex_mux_def)

text \<open>
  C10, as the code has it. When the path is not yet registered on the channel (the channel
  has no entry, or a non-empty list without this path_id), installing the path and
  uninstalling it again restores the channel map; a channel that had no entry holds
  exactly this path after the install, so the uninstall of this last path removes
  the key instead of leaving an empty list.
\<close>

theorem C10_install_uninstall_roundtrip:
  assumes "case qchannel_paths_map mux ch of
             None \<Rightarrow> True
           | Some ps \<Rightarrow> ps \<noteq> [] \<and> fib_path_id fe \<notin> set ps"
  shows "uninstall_path_neighbor (install_path_neighbor mux fe ch) fe ch = Inr mux
       \<and> (qchannel_paths_map mux ch = None \<longrightarrow>
            qchannel_paths_map (install_path_neighbor mux fe ch) ch = Some [fib_path_id fe])"
proof (cases "qchannel_paths_map mux ch")
  case None
  then have "(qchannel_paths_map mux)(ch := None) = qchannel_paths_map mux"
    by (simp add: fun_upd_idem_iff)
  with None show ?thesis
    by (simp add: uninstall_path_neighbor_def install_path_neighbor_def paths_of_def)
next
  case (Some ps)
  with assms have ps: "ps \<noteq> []" "fib_path_id fe \<notin> set ps" by simp_all
  have "remove1 (fib_path_id fe) (ps @ [fib_path_id fe]) = ps"
    using ps(2) by (simp add: remove1_append)
  moreover have "(qchannel_paths_map mux)(ch \<mapsto> ps) = qchannel_paths_map mux"
    using Some by (simp add: fun_upd_idem_iff)
  ultimately show ?thesis
    using Some ps(1)
    by (simp add: uninstall_path_neighbor_def install_path_neighbor_def paths_of_def)
qed

theorem C10_install_uninstall_roundtrip_witness:
  "uninstall_path_neighbor (install_path_neighbor (ex_mux False) (ex_fib_entry 3) ''qAB'')
     (ex_fib_entry 3) ''qAB'' = Inr (ex_mux False)
   \<and> uninstall_path_neighbor (install_path_neighbor (ex_mux False) (ex_fib_entry 3) ''qCD'')
       (ex_fib_entry 3) ''qCD'' = Inr (ex_mux False)
   \<and> qchannel_paths_map (install_path_neighbor (ex_mux False) (ex_fib_entry 3) ''qCD'') ''qCD''
       = Some [3]"
  using C10_install_uninstall_roundtrip [where mux = "ex_mux False" and ch = "''qAB''" and fe = "ex_fib_entry 3"]
        C10_install_uninstall_roundtrip [where mux = "ex_mux False" and ch = "''qCD''" and fe = "ex_fib_entry 3"]
  by (simp add: ex_mux_def ex_fib_entry_def)

text \<open>
  A path registered twice on a channel: the uninstall removes the first occurrence,
  so the list comes back in another order.
\<close>

theorem C10_reinstall_counterexample:
  "uninstall_path_neighbor (install_path_neighbor (ex_mux False) (ex_fib_entry 1) ''qAB'')
     (ex_fib_entry 1) ''qAB''
     = Inr ((ex_mux False)\<lparr>qchannel_paths_map :=
              (qchannel_paths_map (ex_mux False))(''qAB'' \<mapsto> [2, 1])\<rparr>)
   \<and> qchannel_paths_map (ex_mux False) ''qAB'' = Some [1, 2]
   \<and> uninstall_path_neighbor (install_path_neighbor (ex_mux False) (ex_fib_entry 1) ''qAB'')
       (ex_fib_entry 1) ''qAB'' \<noteq> Inr (ex_mux False)"
proof -
  have r: "uninstall_path_neighbor (install_path_neighbor (ex_mux False) (ex_fib_entry 1) ''qAB'')
     (ex_fib_entry 1) ''qAB''
     = Inr ((ex_mux False)\<lparr>qchannel_paths_map :=
              (qchannel_paths_map (ex_mux False))(''qAB'' \<mapsto> [2, 1])\<rparr>)"
    by (simp add: uninstall_path_neighbor_def install_path_neighbor_def paths_of_def
          ex_mux_def ex_fib_entry_def)
  have v: "qchannel_paths_map (ex_mux False) ''qAB'' = Some [1, 2]"
    by (simp add: ex_mux_def)
  have "(ex_mux False)\<lparr>qchannel_paths_map :=
              (qchannel_paths_map (ex_mux False))(''qAB'' \<mapsto> [2, 1])\<rparr> \<noteq> ex_mux False"
  proof
    assume "(ex_mux False)\<lparr>qchannel_paths_map :=
              (qchannel_paths_map (ex_mux False))(''qAB'' \<mapsto> [2, 1])\<rparr> = ex_mux False"
    then have "qchannel_paths_map ((ex_mux False)\<lparr>qchannel_paths_map :=
              (qchannel_paths_map (ex_mux False))(''qAB'' \<mapsto> [2, 1])\<rparr>) ''qAB''
              = qchannel_paths_map (ex_mux False) ''qAB''"
      by simp
    with v show False by simp
  qed
  with r v show ?thesis by simp
qed

lemma map_result_all:
  "(\<forall>x \<in> set xs. f x = Inr (g x)) \<Longrightarrow> map_result f xs = Inr (map g xs)"
  by (induction xs) simp_all

lemma fold_min_max_eq:
  fixes d :: int
  shows "fold min ds d = fold max ds d \<longleftrightarrow> (\<forall>x \<in> set ds. x = d)"
proof -
  have mn: "fold min ds d = Min (set (d # ds))" by (simp only: Min.set_eq_fold)
  have mx: "fold max ds d = Max (set (d # ds))" by (simp only: Max.set_eq_fold)
  show ?thesis
  proof
    assume eq: "fold min ds d = fold max ds d"
    show "\<forall>x \<in> set ds. x = d"
    proof
      fix x assume x: "x \<in> set ds"
      then have "Min (set (d # ds)) \<le> x" "x \<le> Max (set (d # ds))" by simp_all
      moreover have "Min (set (d # ds)) \<le> d" "d \<le> Max (set (d # ds))" by simp_all
      ultimately show "x = d" using eq mn mx by linarith
    qed
  next
    assume all: "\<forall>x \<in> set ds. x = d"
    then have "set (d # ds) = {d}" by auto
    then have "Min (set (d # ds)) = d" "Max (set (d # ds)) = d"
      by (simp_all only: Min_singleton Max_singleton)
    then show "fold min ds d = fold max ds d" by (simp only: mn mx)
  qed
qed

lemma can_enter_purif_cases:
  assumes tmp: "tmp_path_ids e = Some S"
    and D: "\<forall>p. p |\<in>| S \<longrightarrow> calc_rank_diff fib nb p = Inr (D p)"
  shows "can_enter_purif fib e nb =
           (if S = {||} then Inl ValueError
            else if \<exists>p p'. p |\<in>| S \<and> p' |\<in>| S \<and> D p \<noteq> D p' then Inl AssertionError
            else Inr (\<forall>p. p |\<in>| S \<longrightarrow> D p \<le> 0))"
proof -
  define l where "l = sorted_list_of_fset S"
  define differ where "differ \<longleftrightarrow> (\<exists>p p'. p |\<in>| S \<and> p' |\<in>| S \<and> D p \<noteq> D p')"
  define allneg where "allneg \<longleftrightarrow> (\<forall>p. p |\<in>| S \<longrightarrow> D p \<le> 0)"
  have set_l: "set l = fset S" by (simp add: l_def)
  have "\<forall>x \<in> set l. calc_rank_diff fib nb x = Inr (D x)"
    using D set_l by simp
  then have mr: "map_result (calc_rank_diff fib nb) l = Inr (map D l)"
    by (rule map_result_all)
  have unfold: "can_enter_purif fib e nb =
                  (case map D l of
                     [] \<Rightarrow> Inl ValueError
                   | d # ds \<Rightarrow> if fold min ds d \<noteq> fold max ds d then Inl AssertionError
                              else Inr (d \<le> 0))"
    using tmp mr by (simp add: can_enter_purif_def l_def [symmetric])
  have goal: "can_enter_purif fib e nb =
           (if S = {||} then Inl ValueError
            else if differ then Inl AssertionError else Inr allneg)"
  proof (cases l)
    case Nil
    then have "fset S = {}" using set_l by simp
    then have "fset S = fset {||}" by simp
    then have "S = {||}" by (simp only: fset_inject)
    with Nil unfold show ?thesis by simp
  next
    case (Cons p0 ps)
    have setS: "fset S = insert p0 (set ps)" using set_l Cons by simp
    have p0: "p0 |\<in>| S" using setS by simp
    have ne: "S \<noteq> {||}" using p0 by blast
    have alleq: "(\<forall>x \<in> set (map D ps). x = D p0) \<longleftrightarrow> \<not> differ"
    proof
      assume L: "\<forall>x \<in> set (map D ps). x = D p0"
      have eq0: "D p = D p0" if "p |\<in>| S" for p
      proof -
        from that setS have "p = p0 \<or> p \<in> set ps" by simp
        then show ?thesis
        proof
          assume "p = p0" then show ?thesis by (rule arg_cong)
        next
          assume "p \<in> set ps"
          then have "D p \<in> set (map D ps)" by simp
          with L show ?thesis by blast
        qed
      qed
      show "\<not> differ"
      proof
        assume differ
        then obtain p p' where "p |\<in>| S" "p' |\<in>| S" "D p \<noteq> D p'"
          unfolding differ_def by blast
        with eq0 [of p] eq0 [of p'] show False by (simp only:)
      qed
    next
      assume R: "\<not> differ"
      show "\<forall>x \<in> set (map D ps). x = D p0"
      proof
        fix x assume "x \<in> set (map D ps)"
        then obtain p where p: "p \<in> set ps" "x = D p" by auto
        from p(1) setS have "p |\<in>| S" by simp
        with R p0 have "D p = D p0" unfolding differ_def by blast
        with p(2) show "x = D p0" by (simp only:)
      qed
    qed
    have le: "allneg \<longleftrightarrow> D p0 \<le> 0" if R: "\<not> differ"
    proof
      assume allneg
      with p0 show "D p0 \<le> 0" unfolding allneg_def by blast
    next
      assume d: "D p0 \<le> 0"
      have "D p \<le> 0" if "p |\<in>| S" for p
      proof -
        from R that p0 have "D p = D p0" unfolding differ_def by blast
        with d show ?thesis by (simp only:)
      qed
      then show allneg unfolding allneg_def by blast
    qed
    have u2: "can_enter_purif fib e nb =
                (if fold min (map D ps) (D p0) \<noteq> fold max (map D ps) (D p0)
                 then Inl AssertionError else Inr (D p0 \<le> 0))"
      using unfold Cons by simp
    have fm: "fold min (map D ps) (D p0) = fold max (map D ps) (D p0) \<longleftrightarrow> \<not> differ"
      by (simp only: fold_min_max_eq alleq)
    show ?thesis
    proof (cases differ)
      case True
      with ne u2 fm show ?thesis by simp
    next
      case False
      with ne u2 fm le [OF False] show ?thesis by simp
    qed
  qed
  then show ?thesis by (simp only: differ_def allneg_def)
qed

lemma map_result_fails:
  "\<exists>x \<in> set xs. isl (f x) \<Longrightarrow> isl (map_result f xs)"
proof (induction xs)
  case Nil
  then show ?case by simp
next
  case (Cons x xs)
  show ?case
  proof (cases "f x")
    case (Inl err)
    then show ?thesis by simp
  next
    case (Inr y)
    with Cons.prems have "\<exists>x \<in> set xs. isl (f x)" by auto
    then have "isl (map_result f xs)" by (rule Cons.IH)
    with Inr show ?thesis by (cases "map_result f xs") simp_all
  qed
qed

lemma can_enter_purif_fails:
  assumes "tmp_path_ids e = Some S" and "\<exists>p. p |\<in>| S \<and> isl (calc_rank_diff fib nb p)"
  shows "isl (can_enter_purif fib e nb)"
proof -
  from assms(2) obtain p where "p |\<in>| S" "isl (calc_rank_diff fib nb p)" by blast
  then have "p \<in> set (sorted_list_of_fset S)" "isl (calc_rank_diff fib nb p)" by simp_all
  then have "\<exists>x \<in> set (sorted_list_of_fset S). isl (calc_rank_diff fib nb x)"
    by (rule bexI [rotated])
  then have "isl (map_result (calc_rank_diff fib nb) (sorted_list_of_fset S))"
    by (rule map_result_fails)
  then obtain err where "map_result (calc_rank_diff fib nb) (sorted_list_of_fset S) = Inl err"
    by (cases "map_result (calc_rank_diff fib nb) (sorted_list_of_fset S)") simp_all
  with assms(1) show ?thesis by (simp add: can_enter_purif_def)
qed

text \<open>
  C5, as the code has it. A freshly entangled qubit without path_id on a channel,
  with its pair stored in its slot. When no path is installed on the channel, the
  qubit is handed to the forwarder for release and is not promoted. When paths are
  installed and the pair already carries a candidate set that is not the set of
  installed paths (with \<^verbatim>\<open>coordinated_decisions\<close>: not a subset of it), the call
  fails with an assertion error. Otherwise the candidate set \<open>S\<close> is the set the pair
  carries or, if it carries none, the set of installed paths, which the pair then
  receives: an empty \<open>S\<close> is an error; a candidate path for which the FIB gives no
  rank difference is an error; and when the FIB gives for every candidate path the
  rank difference \<open>D p\<close> (own swap rank minus the neighbor's swap rank), the call
  fails with an assertion error if the differences are not all equal, and if they
  are all equal the qubit is promoted to \<^verbatim>\<open>ELIGIBLE\<close> and the forwarder notified
  through \<^verbatim>\<open>qubit_is_eligible\<close> exactly when \<open>D p \<le> 0\<close> for every candidate path,
  and otherwise the qubit keeps its state and no call is made.
\<close>

theorem C5_eligibility:
  assumes a: "a < length (storage m)"
    and slot: "storage m ! a = (q, Some e)"
    and nop: "path_id q = None"
    and ch: "qchannel q = Some ch"
  shows "((qchannel_paths_map mux ch = None \<or> qchannel_paths_map mux ch = Some []) \<longrightarrow>
            qubit_is_entangled mux fib m a nb = Inr (m, [release_qubit a True]))
       \<and> (qchannel_paths_map mux ch = Some ps \<and> ps \<noteq> [] \<longrightarrow>
            ((\<exists>s. tmp_path_ids e = Some s
                 \<and> (if coordinated_decisions mux then \<not> s |\<subseteq>| fset_of_list ps
                     else s \<noteq> fset_of_list ps)) \<longrightarrow>
               qubit_is_entangled mux fib m a nb = Inl AssertionError)
            \<and> ((tmp_path_ids e = None \<and> S = fset_of_list ps
                  \<or> tmp_path_ids e = Some S
                    \<and> (if coordinated_decisions mux then S |\<subseteq>| fset_of_list ps
                        else S = fset_of_list ps)) \<longrightarrow>
                 (S = {||} \<longrightarrow> qubit_is_entangled mux fib m a nb = Inl ValueError)
                 \<and> ((\<exists>p. p |\<in>| S \<and> isl (calc_rank_diff fib nb p)) \<longrightarrow>
                      isl (qubit_is_entangled mux fib m a nb))
                 \<and> (S \<noteq> {||} \<and> (\<forall>p. p |\<in>| S \<longrightarrow> calc_rank_diff fib nb p = Inr (D p)) \<longrightarrow>
                      ((\<exists>p p'. p |\<in>| S \<and> p' |\<in>| S \<and> D p \<noteq> D p') \<longrightarrow>
                         qubit_is_entangled mux fib m a nb = Inl AssertionError)
                      \<and> (\<not> (\<exists>p p'. p |\<in>| S \<and> p' |\<in>| S \<and> D p \<noteq> D p') \<longrightarrow>
                           ((\<forall>p. p |\<in>| S \<longrightarrow> D p \<le> 0) \<longrightarrow>
                              qubit_is_entangled mux fib m a nb =
                                Inr (m\<lparr>storage := (storage m)
                                         [a := (q\<lparr>state := ELIGIBLE\<rparr>,
                                                Some (e\<lparr>tmp_path_ids := Some S\<rparr>))]\<rparr>,
                                     [qubit_is_eligible a None]))
                           \<and> (\<not> (\<forall>p. p |\<in>| S \<longrightarrow> D p \<le> 0) \<longrightarrow>
                                qubit_is_entangled mux fib m a nb =
                                  Inr (m\<lparr>storage := (storage m)
                                           [a := (q, Some (e\<lparr>tmp_path_ids := Some S\<rparr>))]\<rparr>,
                                       []))))))"
proof -
  let ?res = "qubit_is_entangled mux fib m a nb"
  let ?P = "fset_of_list ps"
  let ?e' = "e\<lparr>tmp_path_ids := Some S\<rparr>"
  have released: "?res = Inr (m, [release_qubit a True])"
    if "qchannel_paths_map mux ch = None \<or> qchannel_paths_map mux ch = Some []"
    using that a slot nop ch
    by (auto simp: qubit_is_entangled_def qubit_is_entangled_0_def Let_def)
  have unfold: "?res =
          (case set_tmp_path_ids mux e ?P of
             Inl err \<Rightarrow> Inl err
           | Inr e' \<Rightarrow>
               (case can_enter_purif fib e' nb of
                  Inl err \<Rightarrow> Inl err
                | Inr ok \<Rightarrow>
                    if ok
                    then Inr (m\<lparr>storage := (storage m)[a := (q\<lparr>state := ELIGIBLE\<rparr>, Some e')]\<rparr>,
                              [qubit_is_eligible a None])
                    else Inr (m\<lparr>storage := (storage m)[a := (q, Some e')]\<rparr>, [])))"
    if ps: "qchannel_paths_map mux ch = Some ps" "ps \<noteq> []"
  proof -
    have ne: "fset_of_list ps \<noteq> {||}" using ps(2) by (cases ps) simp_all
    have q0: "qubit_is_entangled_0 mux q a = Inr (ps, [])"
      using nop ch ps by (simp add: qubit_is_entangled_0_def)
    have g: "memory_get m a True = Inr (Some (q, e))"
      using a slot by (simp add: memory_get_def)
    show ?thesis
      using a slot q0 g ne by (simp add: qubit_is_entangled_def Let_def split: sum.splits)
  qed
  have inconsistent: "?res = Inl AssertionError"
    if ps: "qchannel_paths_map mux ch = Some ps" "ps \<noteq> []"
      and bad: "\<exists>s. tmp_path_ids e = Some s
                 \<and> (if coordinated_decisions mux then \<not> s |\<subseteq>| ?P else s \<noteq> ?P)"
  proof -
    from bad have "set_tmp_path_ids mux e ?P = Inl AssertionError"
      by (auto simp: set_tmp_path_ids_def split: if_splits)
    with unfold [OF ps] show ?thesis by simp
  qed
  have consistent: "?res =
          (case can_enter_purif fib ?e' nb of
             Inl err \<Rightarrow> Inl err
           | Inr ok \<Rightarrow>
               if ok
               then Inr (m\<lparr>storage := (storage m)[a := (q\<lparr>state := ELIGIBLE\<rparr>, Some ?e')]\<rparr>,
                         [qubit_is_eligible a None])
               else Inr (m\<lparr>storage := (storage m)[a := (q, Some ?e')]\<rparr>, []))"
    if ps: "qchannel_paths_map mux ch = Some ps" "ps \<noteq> []"
      and good: "tmp_path_ids e = None \<and> S = ?P
                 \<or> tmp_path_ids e = Some S
                   \<and> (if coordinated_decisions mux then S |\<subseteq>| ?P else S = ?P)"
  proof -
    from good have "set_tmp_path_ids mux e ?P = Inr ?e'"
    proof
      assume "tmp_path_ids e = None \<and> S = ?P"
      then show ?thesis by (simp add: set_tmp_path_ids_def)
    next
      assume g: "tmp_path_ids e = Some S
                 \<and> (if coordinated_decisions mux then S |\<subseteq>| ?P else S = ?P)"
      then have "e\<lparr>tmp_path_ids := Some S\<rparr> = e" by simp
      moreover from g have "set_tmp_path_ids mux e ?P = Inr e"
        by (auto simp: set_tmp_path_ids_def split: if_splits)
      ultimately show ?thesis by simp
    qed
    with unfold [OF ps] show ?thesis by simp
  qed
  have tmp': "tmp_path_ids ?e' = Some S" by simp
  have empty: "?res = Inl ValueError"
    if "qchannel_paths_map mux ch = Some ps" "ps \<noteq> []"
      "tmp_path_ids e = None \<and> S = ?P
       \<or> tmp_path_ids e = Some S
         \<and> (if coordinated_decisions mux then S |\<subseteq>| ?P else S = ?P)"
      "S = {||}"
  proof -
    have "\<forall>p. p |\<in>| S \<longrightarrow> calc_rank_diff fib nb p = Inr ((\<lambda>p. 0) p)"
      using that(4) by simp
    from can_enter_purif_cases [OF tmp' this] that(4)
    have "can_enter_purif fib ?e' nb = Inl ValueError" by simp
    with consistent [OF that(1,2,3)] show ?thesis by simp
  qed
  have lookup: "isl ?res"
    if "qchannel_paths_map mux ch = Some ps" "ps \<noteq> []"
      "tmp_path_ids e = None \<and> S = ?P
       \<or> tmp_path_ids e = Some S
         \<and> (if coordinated_decisions mux then S |\<subseteq>| ?P else S = ?P)"
      "\<exists>p. p |\<in>| S \<and> isl (calc_rank_diff fib nb p)"
  proof -
    have "isl (can_enter_purif fib ?e' nb)"
      using tmp' that(4) by (rule can_enter_purif_fails)
    then obtain err where "can_enter_purif fib ?e' nb = Inl err"
      by (cases "can_enter_purif fib ?e' nb") simp_all
    with consistent [OF that(1,2,3)] show ?thesis by simp
  qed
  have ranked:
    "((\<exists>p p'. p |\<in>| S \<and> p' |\<in>| S \<and> D p \<noteq> D p') \<longrightarrow> ?res = Inl AssertionError)
     \<and> (\<not> (\<exists>p p'. p |\<in>| S \<and> p' |\<in>| S \<and> D p \<noteq> D p') \<longrightarrow>
          ((\<forall>p. p |\<in>| S \<longrightarrow> D p \<le> 0) \<longrightarrow>
             ?res = Inr (m\<lparr>storage := (storage m)[a := (q\<lparr>state := ELIGIBLE\<rparr>, Some ?e')]\<rparr>,
                         [qubit_is_eligible a None]))
          \<and> (\<not> (\<forall>p. p |\<in>| S \<longrightarrow> D p \<le> 0) \<longrightarrow>
               ?res = Inr (m\<lparr>storage := (storage m)[a := (q, Some ?e')]\<rparr>, [])))"
    if "qchannel_paths_map mux ch = Some ps" "ps \<noteq> []"
      "tmp_path_ids e = None \<and> S = ?P
       \<or> tmp_path_ids e = Some S
         \<and> (if coordinated_decisions mux then S |\<subseteq>| ?P else S = ?P)"
      "S \<noteq> {||}" "\<forall>p. p |\<in>| S \<longrightarrow> calc_rank_diff fib nb p = Inr (D p)"
  proof -
    define differ where "differ \<longleftrightarrow> (\<exists>p p'. p |\<in>| S \<and> p' |\<in>| S \<and> D p \<noteq> D p')"
    define allneg where "allneg \<longleftrightarrow> (\<forall>p. p |\<in>| S \<longrightarrow> D p \<le> 0)"
    have cep: "can_enter_purif fib ?e' nb =
                 (if differ then Inl AssertionError else Inr allneg)"
      using can_enter_purif_cases [OF tmp' that(5)] that(4)
      by (simp only: differ_def allneg_def if_False)
    note c = consistent [OF that(1,2,3)]
    have "(differ \<longrightarrow> ?res = Inl AssertionError)
          \<and> (\<not> differ \<longrightarrow>
               (allneg \<longrightarrow>
                  ?res = Inr (m\<lparr>storage := (storage m)
                                   [a := (q\<lparr>state := ELIGIBLE\<rparr>, Some ?e')]\<rparr>,
                              [qubit_is_eligible a None]))
               \<and> (\<not> allneg \<longrightarrow>
                    ?res = Inr (m\<lparr>storage := (storage m)[a := (q, Some ?e')]\<rparr>, [])))"
      unfolding c cep by simp
    then show ?thesis by (simp only: differ_def allneg_def)
  qed
  from released inconsistent empty lookup ranked show ?thesis by blast
qed

theorem C5_eligibility_witness:
  "qubit_is_entangled (ex_mux False) [ex_fib_entry 1, ex_fib_entry 2]
     (ex_memory [(ex_qubit 0 ENTANGLED0 ''qAB'' (Some ''k1''), Some ex_pair)]) 0 ''A''
   = Inr ((ex_memory [(ex_qubit 0 ENTANGLED0 ''qAB'' (Some ''k1''), Some ex_pair)])
            \<lparr>storage := [(ex_qubit 0 ELIGIBLE ''qAB'' (Some ''k1''),
                          Some (ex_pair\<lparr>tmp_path_ids := Some {|1, 2|}\<rparr>))]\<rparr>,
          [qubit_is_eligible 0 None])
   \<and> qubit_is_entangled (ex_mux False) [ex_fib_entry 1, (ex_fib_entry 2)\<lparr>own_swap_rank := 1\<rparr>]
       (ex_memory [(ex_qubit 0 ENTANGLED0 ''qAB'' (Some ''k1''), Some ex_pair)]) 0 ''A''
     = Inl AssertionError
   \<and> qubit_is_entangled (ex_mux False) [ex_fib_entry 1, ex_fib_entry 2]
       (ex_memory [(ex_qubit 0 ENTANGLED0 ''qCD'' (Some ''k1''), Some ex_pair)]) 0 ''A''
     = Inr (ex_memory [(ex_qubit 0 ENTANGLED0 ''qCD'' (Some ''k1''), Some ex_pair)],
            [release_qubit 0 True])
   \<and> qubit_is_entangled (ex_mux False) [ex_fib_entry 1, ex_fib_entry 2]
       (ex_memory [(ex_qubit 0 ENTANGLED0 ''qAB'' (Some ''k1''),
                    Some (ex_pair\<lparr>tmp_path_ids := Some {|1|}\<rparr>))]) 0 ''A''
     = Inl AssertionError"
proof -
  let ?m = "ex_memory [(ex_qubit 0 ENTANGLED0 ''qAB'' (Some ''k1''), Some ex_pair)]"
  let ?m2 = "ex_memory [(ex_qubit 0 ENTANGLED0 ''qCD'' (Some ''k1''), Some ex_pair)]"
  let ?m3 = "ex_memory [(ex_qubit 0 ENTANGLED0 ''qAB'' (Some ''k1''),
                          Some (ex_pair\<lparr>tmp_path_ids := Some {|1|}\<rparr>))]"
  let ?q = "ex_qubit 0 ENTANGLED0 ''qAB'' (Some ''k1'')"
  let ?q2 = "ex_qubit 0 ENTANGLED0 ''qCD'' (Some ''k1'')"
  let ?fib = "[ex_fib_entry 1, ex_fib_entry 2]"
  let ?fib2 = "[ex_fib_entry 1, (ex_fib_entry 2)\<lparr>own_swap_rank := 1\<rparr>]"
  have h1: "0 < length (storage ?m)" "storage ?m ! 0 = (?q, Some ex_pair)"
    "path_id ?q = None" "qchannel ?q = Some ''qAB''"
    by (simp_all add: ex_memory_def ex_qubit_def)
  have h2: "0 < length (storage ?m2)" "storage ?m2 ! 0 = (?q2, Some ex_pair)"
    "path_id ?q2 = None" "qchannel ?q2 = Some ''qCD''"
    by (simp_all add: ex_memory_def ex_qubit_def)
  have h3: "0 < length (storage ?m3)"
    "storage ?m3 ! 0 = (?q, Some (ex_pair\<lparr>tmp_path_ids := Some {|1|}\<rparr>))"
    "path_id ?q = None" "qchannel ?q = Some ''qAB''"
    by (simp_all add: ex_memory_def ex_qubit_def)
  have ps: "qchannel_paths_map (ex_mux False) ''qAB'' = Some [1, 2] \<and> [1, 2 :: int] \<noteq> []"
    by (simp add: ex_mux_def)
  have good: "tmp_path_ids ex_pair = None \<and> {|1, 2|} = fset_of_list [1, 2 :: int]
              \<or> tmp_path_ids ex_pair = Some {|1, 2|}
                \<and> (if coordinated_decisions (ex_mux False)
                    then {|1, 2|} |\<subseteq>| fset_of_list [1, 2 :: int]
                    else {|1, 2|} = fset_of_list [1, 2 :: int])"
    by (simp add: ex_pair_def)
  have bad: "\<exists>s. tmp_path_ids (ex_pair\<lparr>tmp_path_ids := Some {|1|}\<rparr>) = Some s
               \<and> (if coordinated_decisions (ex_mux False)
                   then \<not> s |\<subseteq>| fset_of_list [1, 2 :: int]
                   else s \<noteq> fset_of_list [1, 2 :: int])"
    by (simp add: ex_mux_def)
  have d1: "{|1, 2 :: int|} \<noteq> {||}
            \<and> (\<forall>p. p |\<in>| {|1, 2|} \<longrightarrow> calc_rank_diff ?fib ''A'' p = Inr ((\<lambda>p. - 1) p))"
    by (auto simp: calc_rank_diff_def fib_get_def find_index_and_swap_rank_def ex_fib_entry_def)
  have d2: "{|1, 2 :: int|} \<noteq> {||}
            \<and> (\<forall>p. p |\<in>| {|1, 2|} \<longrightarrow>
                   calc_rank_diff ?fib2 ''A'' p = Inr ((\<lambda>p. if p = 1 then - 1 else 0) p))"
    by (auto simp: calc_rank_diff_def fib_get_def find_index_and_swap_rank_def ex_fib_entry_def)
  have none: "qchannel_paths_map (ex_mux False) ''qCD'' = None
              \<or> qchannel_paths_map (ex_mux False) ''qCD'' = Some []"
    by (simp add: ex_mux_def)
  have same: "\<not> (\<exists>p p'. p |\<in>| {|1, 2 :: int|} \<and> p' |\<in>| {|1, 2|}
                 \<and> (\<lambda>p. - 1 :: int) p \<noteq> (\<lambda>p. - 1) p')"
    by simp
  have neg: "\<forall>p. p |\<in>| {|1, 2 :: int|} \<longrightarrow> (\<lambda>p. - 1 :: int) p \<le> 0"
    by simp
  have differ: "\<exists>p p'. p |\<in>| {|1, 2 :: int|} \<and> p' |\<in>| {|1, 2|}
            \<and> (\<lambda>p. if p = 1 then - 1 else 0) p \<noteq> (\<lambda>p. if p = 1 then - 1 else (0 :: int)) p'"
    by (intro exI [of _ 1] exI [of _ 2]) simp
  have r1: "qubit_is_entangled (ex_mux False) ?fib ?m 0 ''A'' =
              Inr (?m\<lparr>storage := (storage ?m)
                       [0 := (?q\<lparr>state := ELIGIBLE\<rparr>,
                              Some (ex_pair\<lparr>tmp_path_ids := Some {|1, 2|}\<rparr>))]\<rparr>,
                   [qubit_is_eligible 0 None])"
    using C5_eligibility [OF h1, where mux = "ex_mux False" and ps = "[1, 2]"
            and S = "{|1, 2|}" and fib = ?fib and nb = "''A''" and D = "\<lambda>p. - 1",
            THEN conjunct2, THEN mp, OF ps, THEN conjunct2, THEN mp, OF good,
            THEN conjunct2, THEN conjunct2, THEN mp, OF d1, THEN conjunct2, THEN mp, OF same,
            THEN conjunct1, THEN mp, OF neg] .
  have r2: "qubit_is_entangled (ex_mux False) ?fib2 ?m 0 ''A'' = Inl AssertionError"
    using C5_eligibility [OF h1, where mux = "ex_mux False" and ps = "[1, 2]"
            and S = "{|1, 2|}" and fib = ?fib2 and nb = "''A''"
            and D = "\<lambda>p. if p = 1 then - 1 else 0",
            THEN conjunct2, THEN mp, OF ps, THEN conjunct2, THEN mp, OF good,
            THEN conjunct2, THEN conjunct2, THEN mp, OF d2, THEN conjunct1, THEN mp, OF differ] .
  have r3: "qubit_is_entangled (ex_mux False) ?fib ?m2 0 ''A'' = Inr (?m2, [release_qubit 0 True])"
    using C5_eligibility [OF h2, where mux = "ex_mux False" and fib = ?fib and nb = "''A''",
            THEN conjunct1, THEN mp, OF none] .
  have r4: "qubit_is_entangled (ex_mux False) ?fib ?m3 0 ''A'' = Inl AssertionError"
    using C5_eligibility [OF h3, where mux = "ex_mux False" and ps = "[1, 2]" and fib = ?fib
            and nb = "''A''", THEN conjunct2, THEN mp, OF ps, THEN conjunct1, THEN mp, OF bad] .
  show ?thesis
    unfolding r1 r2 r3 r4 by (simp add: ex_memory_def ex_qubit_def)
qed

text \<open>
  No path installed on the qubit's channel: the rank difference is not positive on
  every path of the pair's candidate set, and yet the qubit is released, not
  promoted.
\<close>

theorem C5_uninstalled_path_counterexample:
  "tmp_path_ids (ex_pair\<lparr>tmp_path_ids := Some {|1|}\<rparr>) = Some {|1|}
   \<and> calc_rank_diff [ex_fib_entry 1] ''A'' 1 = Inr (- 1)
   \<and> qubit_is_entangled \<lparr>qchannel_paths_map = Map.empty, coordinated_decisions = False\<rparr>
       [ex_fib_entry 1]
       (ex_memory [(ex_qubit 0 ENTANGLED0 ''qAB'' (Some ''k1''),
                    Some (ex_pair\<lparr>tmp_path_ids := Some {|1|}\<rparr>))]) 0 ''A''
     = Inr (ex_memory [(ex_qubit 0 ENTANGLED0 ''qAB'' (Some ''k1''),
                        Some (ex_pair\<lparr>tmp_path_ids := Some {|1|}\<rparr>))],
            [release_qubit 0 True])"
  by (simp add: calc_rank_diff_def fib_get_def find_index_and_swap_rank_def ex_fib_entry_def
        qubit_is_entangled_def qubit_is_entangled_0_def ex_memory_def ex_qubit_def Let_def)

lemma fib_get_path_id: "fib_get fib p = Inr fe \<Longrightarrow> fib_path_id fe = p"
  by (auto simp: fib_get_def find_Some_iff split: option.splits)

lemma random_choice_member: "random_choice rnd xs = Inr x \<Longrightarrow> x \<in> set xs"
  by (auto simp: random_choice_def split: if_splits)

lemma select_swap_qubit_member:
  assumes "select_swap_qubit fn qubit e fib_entry cands = Some c"
    and "case fn of None \<Rightarrow> True | Some f \<Rightarrow> (\<forall>l. l \<noteq> [] \<longrightarrow> f qubit e fib_entry l \<in> set l)"
  shows "c \<in> set cands"
proof (cases fn)
  case None
  with assms(1) show ?thesis
    by (cases cands) (simp_all add: select_swap_qubit_def)
next
  case (Some f)
  with assms(1) have ne: "cands \<noteq> []" and c: "c = f qubit e fib_entry cands"
    by (auto simp: select_swap_qubit_def Let_def split: if_splits)
  from assms(2) Some ne have "f qubit e fib_entry cands \<in> set cands" by simp
  with c show ?thesis by simp
qed

lemma has_intersect_Some:
  "has_intersect_tmp_path_ids t (map_option fset t1)
   \<longleftrightarrow> (\<exists>s s1. t = Some s \<and> t1 = Some s1 \<and> s |\<inter>| s1 \<noteq> {||})"
proof -
  have "fset s \<inter> fset s1 \<noteq> {} \<longleftrightarrow> s |\<inter>| s1 \<noteq> {||}" for s s1 :: "int fset"
    by (metis bot_fset.rep_eq fset_inject inf_fset.rep_eq)
  then show ?thesis
    by (cases t; cases t1) (simp_all add: has_intersect_tmp_path_ids_def)
qed

lemma in_set_map_filter:
  "y \<in> set (List.map_filter f xs) \<longleftrightarrow> (\<exists>x \<in> set xs. f x = Some y)"
  by (induction xs) (auto split: option.splits)

lemma swap_candidates_member:
  assumes "(i, q, e1) \<in> set (swap_candidates mux m own_channel e)"
  shows "i < length (storage m) \<and> storage m ! i = (q, Some e1) \<and> state q = ELIGIBLE
       \<and> (\<exists>ch. qchannel q = Some ch \<and> ch \<noteq> own_channel)
       \<and> (\<exists>s s1. tmp_path_ids e = Some s \<and> tmp_path_ids e1 = Some s1 \<and> s |\<inter>| s1 \<noteq> {||})"
proof -
  let ?found = "memory_find
          (\<lambda>q v. state q = ELIGIBLE
             \<and> (case qchannel q of
                  None \<Rightarrow> False
                | Some ch \<Rightarrow> ch \<in> matched_channels mux own_channel e)
             \<and> has_intersect_tmp_path_ids (tmp_path_ids e)
                  (case v of None \<Rightarrow> None | Some e1 \<Rightarrow> map_option fset (tmp_path_ids e1)))
          True m"
  from assms obtain x where x: "x \<in> set ?found"
    and fx: "(case x of (i, q, v) \<Rightarrow> case v of None \<Rightarrow> None | Some e1 \<Rightarrow> Some (i, q, e1))
             = Some (i, q, e1)"
    unfolding swap_candidates_def in_set_map_filter by blast
  obtain i' q' v where xe: "x = (i', q', v)" by (cases x)
  from fx xe have "v = Some e1 \<and> i' = i \<and> q' = q" by (cases v) simp_all
  with x xe have mem: "(i, q, v) \<in> set ?found" and v: "v = Some e1" by simp_all
  from mem have en: "(i, q, v) \<in> set (enumerate 0 (storage m))"
    and el: "state q = ELIGIBLE"
    and chn: "case qchannel q of None \<Rightarrow> False
              | Some ch \<Rightarrow> ch \<in> matched_channels mux own_channel e"
    and hi: "has_intersect_tmp_path_ids (tmp_path_ids e)
               (case v of None \<Rightarrow> None | Some e1 \<Rightarrow> map_option fset (tmp_path_ids e1))"
    by (simp_all add: memory_find_def)
  from en have i: "i < length (storage m)" "storage m ! i = (q, v)"
    by (simp_all add: in_set_enumerate_eq)
  from chn obtain ch where ch: "qchannel q = Some ch" "ch \<in> matched_channels mux own_channel e"
    by (cases "qchannel q") simp_all
  from ch(2) have "ch \<noteq> own_channel" by (auto simp: matched_channels_def)
  moreover from hi v have "\<exists>s s1. tmp_path_ids e = Some s \<and> tmp_path_ids e1 = Some s1
                            \<and> s |\<inter>| s1 \<noteq> {||}"
    by (simp add: has_intersect_Some)
  ultimately show ?thesis using i v el ch(1) by simp
qed

text \<open>
  C4. Whenever \<^verbatim>\<open>find_swap_candidate\<close> returns a result, and the forwarder's selection
  strategy selects among the candidates it is given (as the default and
  \<^verbatim>\<open>select_swap_qubit_random\<close> do): the returned qubit is a qubit of the memory in
  state \<^verbatim>\<open>ELIGIBLE\<close>, assigned to a channel other than the channel of the input
  qubit; the candidate sets of its pair and of the input pair intersect, and the
  path_id of the returned FIB entry is in the intersection; with
  \<^verbatim>\<open>coordinated_decisions\<close> both pairs then carry the singleton of that path_id (and
  are otherwise unchanged), and without it both pairs are unchanged.
\<close>

theorem C4_find_swap_candidate:
  assumes res: "find_swap_candidate mux fib fn rnd m qubit e fib_entry = Inr (Some r)"
    and strat: "case fn of
                  None \<Rightarrow> True
                | Some f \<Rightarrow> (\<forall>l. l \<noteq> [] \<longrightarrow> f qubit e fib_entry l \<in> set l)"
  shows "\<exists>e1 s s1 ch1.
           sc_slot r < length (storage m)
         \<and> storage m ! sc_slot r = (sc_qubit r, Some e1)
         \<and> state (sc_qubit r) = ELIGIBLE
         \<and> qchannel (sc_qubit r) = Some ch1 \<and> qchannel qubit \<noteq> Some ch1
         \<and> tmp_path_ids e = Some s \<and> tmp_path_ids e1 = Some s1
         \<and> s |\<inter>| s1 \<noteq> {||}
         \<and> fib_path_id (sc_fib_entry r) |\<in>| s |\<inter>| s1
         \<and> (coordinated_decisions mux \<longrightarrow>
               sc_epr r = e\<lparr>tmp_path_ids := Some {|fib_path_id (sc_fib_entry r)|}\<rparr>
             \<and> sc_epr1 r = e1\<lparr>tmp_path_ids := Some {|fib_path_id (sc_fib_entry r)|}\<rparr>)
         \<and> (\<not> coordinated_decisions mux \<longrightarrow> sc_epr r = e \<and> sc_epr1 r = e1)"
proof -
  from res obtain own_channel where oc: "qchannel qubit = Some own_channel"
    by (cases "qchannel qubit") (simp_all add: find_swap_candidate_def)
  let ?cands = "swap_candidates mux m own_channel e"
  from res oc obtain i1 mq1 epr1 where
    sel: "select_swap_qubit fn qubit e fib_entry ?cands = Some (i1, mq1, epr1)"
    by (cases "select_swap_qubit fn qubit e fib_entry ?cands")
       (auto simp: find_swap_candidate_def)
  from res oc sel obtain path_ids where
    inter: "intersect_tmp_path_ids e epr1 = Inr path_ids"
    by (cases "intersect_tmp_path_ids e epr1") (simp_all add: find_swap_candidate_def)
  from res oc sel inter obtain chosen where
    rc: "random_choice rnd (sorted_list_of_fset path_ids) = Inr chosen"
    by (cases "random_choice rnd (sorted_list_of_fset path_ids)")
       (simp_all add: find_swap_candidate_def)
  from res oc sel inter rc obtain fe where
    fg: "fib_get fib chosen = Inr fe"
    by (cases "fib_get fib chosen") (simp_all add: find_swap_candidate_def Let_def)
  from res oc sel inter rc fg have r:
    "r = \<lparr>sc_slot = i1, sc_qubit = mq1, sc_fib_entry = fe,
          sc_epr = (if coordinated_decisions mux
                    then e\<lparr>tmp_path_ids := Some {|chosen|}\<rparr> else e),
          sc_epr1 = (if coordinated_decisions mux
                     then epr1\<lparr>tmp_path_ids := Some {|chosen|}\<rparr> else epr1)\<rparr>"
    by (simp add: find_swap_candidate_def Let_def)
  have "(i1, mq1, epr1) \<in> set ?cands"
    using sel strat by (rule select_swap_qubit_member)
  note c = swap_candidates_member [OF this]
  then obtain ch1 s s1 where ch1: "qchannel mq1 = Some ch1" "ch1 \<noteq> own_channel"
    and ss: "tmp_path_ids e = Some s" "tmp_path_ids epr1 = Some s1" "s |\<inter>| s1 \<noteq> {||}"
    by blast
  from inter ss have pi: "path_ids = s |\<inter>| s1"
    by (simp add: intersect_tmp_path_ids_def Let_def)
  from rc have "chosen \<in> set (sorted_list_of_fset path_ids)" by (rule random_choice_member)
  then have chosen: "chosen |\<in>| s |\<inter>| s1" using pi by simp
  from fg have fp: "fib_path_id fe = chosen" by (rule fib_get_path_id)
  have "sc_slot r < length (storage m)
         \<and> storage m ! sc_slot r = (sc_qubit r, Some epr1)
         \<and> state (sc_qubit r) = ELIGIBLE
         \<and> qchannel (sc_qubit r) = Some ch1 \<and> qchannel qubit \<noteq> Some ch1
         \<and> tmp_path_ids e = Some s \<and> tmp_path_ids epr1 = Some s1
         \<and> s |\<inter>| s1 \<noteq> {||}
         \<and> fib_path_id (sc_fib_entry r) |\<in>| s |\<inter>| s1
         \<and> (coordinated_decisions mux \<longrightarrow>
               sc_epr r = e\<lparr>tmp_path_ids := Some {|fib_path_id (sc_fib_entry r)|}\<rparr>
             \<and> sc_epr1 r = epr1\<lparr>tmp_path_ids := Some {|fib_path_id (sc_fib_entry r)|}\<rparr>)
         \<and> (\<not> coordinated_decisions mux \<longrightarrow> sc_epr r = e \<and> sc_epr1 r = epr1)"
    unfolding r using c ch1 ss chosen fp oc by simp
  then show ?thesis by blast
qed

lemma ex_swap_candidates:
  "swap_candidates (ex_mux c) ex_swap_memory ''qAB'' (ex_pair\<lparr>tmp_path_ids := Some {|1, 2|}\<rparr>)
   = [(2, ex_qubit 2 ELIGIBLE ''qBC'' (Some ''k3''),
       ex_pair\<lparr>name := ''e3'', tmp_path_ids := Some {|2, 3|}\<rparr>)]"
  by (simp add: swap_candidates_def memory_find_def matched_channels_def
        has_intersect_tmp_path_ids_def ex_mux_def ex_swap_memory_def ex_memory_def ex_qubit_def
        ex_pair_def)

lemma ex_find_swap_candidate:
  "find_swap_candidate (ex_mux c) [ex_fib_entry 1, ex_fib_entry 2, ex_fib_entry 3] fn rnd
     ex_swap_memory (ex_qubit 0 ELIGIBLE ''qAB'' (Some ''k1''))
     (ex_pair\<lparr>tmp_path_ids := Some {|1, 2|}\<rparr>) None
   = Inr (Some \<lparr>sc_slot = 2, sc_qubit = ex_qubit 2 ELIGIBLE ''qBC'' (Some ''k3''),
                sc_fib_entry = ex_fib_entry 2,
                sc_epr = (if c then ex_pair\<lparr>tmp_path_ids := Some {|2|}\<rparr>
                          else ex_pair\<lparr>tmp_path_ids := Some {|1, 2|}\<rparr>),
                sc_epr1 = (if c then ex_pair\<lparr>name := ''e3'', tmp_path_ids := Some {|2|}\<rparr>
                           else ex_pair\<lparr>name := ''e3'', tmp_path_ids := Some {|2, 3|}\<rparr>)\<rparr>)"
  if "fn = None \<or> fn = Some (select_swap_qubit_random k)"
proof -
  have sel: "select_swap_qubit fn (ex_qubit 0 ELIGIBLE ''qAB'' (Some ''k1''))
               (ex_pair\<lparr>tmp_path_ids := Some {|1, 2|}\<rparr>) None
               [(2, ex_qubit 2 ELIGIBLE ''qBC'' (Some ''k3''),
                 ex_pair\<lparr>name := ''e3'', tmp_path_ids := Some {|2, 3|}\<rparr>)]
             = Some (2, ex_qubit 2 ELIGIBLE ''qBC'' (Some ''k3''),
                     ex_pair\<lparr>name := ''e3'', tmp_path_ids := Some {|2, 3|}\<rparr>)"
    using that by (auto simp: select_swap_qubit_def select_swap_qubit_random_def)
  have inter: "intersect_tmp_path_ids (ex_pair\<lparr>tmp_path_ids := Some {|1, 2|}\<rparr>)
                 (ex_pair\<lparr>name := ''e3'', tmp_path_ids := Some {|2, 3|}\<rparr>) = Inr {|2|}"
    by (simp add: intersect_tmp_path_ids_def)
  have rc: "random_choice rnd (sorted_list_of_fset {|2 :: int|}) = Inr 2"
    by (simp add: random_choice_def sorted_list_of_fset.rep_eq)
  have fg: "fib_get [ex_fib_entry 1, ex_fib_entry 2, ex_fib_entry 3] 2 = Inr (ex_fib_entry 2)"
    by (simp add: fib_get_def ex_fib_entry_def)
  have qc: "qchannel (ex_qubit 0 ELIGIBLE ''qAB'' (Some ''k1'')) = Some ''qAB''"
    by (simp add: ex_qubit_def)
  have cd: "coordinated_decisions (ex_mux c) = c"
    by (simp add: ex_mux_def)
  show ?thesis
    by (simp add: find_swap_candidate_def qc ex_swap_candidates sel inter rc fg cd Let_def)
qed

theorem C4_find_swap_candidate_witness:
  "find_swap_candidate (ex_mux True) [ex_fib_entry 1, ex_fib_entry 2, ex_fib_entry 3] None 0
     ex_swap_memory (ex_qubit 0 ELIGIBLE ''qAB'' (Some ''k1''))
     (ex_pair\<lparr>tmp_path_ids := Some {|1, 2|}\<rparr>) None
   = Inr (Some \<lparr>sc_slot = 2, sc_qubit = ex_qubit 2 ELIGIBLE ''qBC'' (Some ''k3''),
                sc_fib_entry = ex_fib_entry 2,
                sc_epr = ex_pair\<lparr>tmp_path_ids := Some {|2|}\<rparr>,
                sc_epr1 = ex_pair\<lparr>name := ''e3'', tmp_path_ids := Some {|2|}\<rparr>\<rparr>)
   \<and> find_swap_candidate (ex_mux False) [ex_fib_entry 1, ex_fib_entry 2, ex_fib_entry 3]
       (Some (select_swap_qubit_random 7)) 4
       ex_swap_memory (ex_qubit 0 ELIGIBLE ''qAB'' (Some ''k1''))
       (ex_pair\<lparr>tmp_path_ids := Some {|1, 2|}\<rparr>) None
     = Inr (Some \<lparr>sc_slot = 2, sc_qubit = ex_qubit 2 ELIGIBLE ''qBC'' (Some ''k3''),
                  sc_fib_entry = ex_fib_entry 2,
                  sc_epr = ex_pair\<lparr>tmp_path_ids := Some {|1, 2|}\<rparr>,
                  sc_epr1 = ex_pair\<lparr>name := ''e3'', tmp_path_ids := Some {|2, 3|}\<rparr>\<rparr>)
   \<and> state (ex_qubit 2 ELIGIBLE ''qBC'' (Some ''k3'')) = ELIGIBLE
   \<and> qchannel (ex_qubit 2 ELIGIBLE ''qBC'' (Some ''k3''))
       \<noteq> qchannel (ex_qubit 0 ELIGIBLE ''qAB'' (Some ''k1''))
   \<and> fib_path_id (ex_fib_entry 2) |\<in>| {|1, 2|} |\<inter>| {|2, 3|}"
proof -
  let ?fib = "[ex_fib_entry 1, ex_fib_entry 2, ex_fib_entry 3]"
  let ?q = "ex_qubit 0 ELIGIBLE ''qAB'' (Some ''k1'')"
  let ?e = "ex_pair\<lparr>tmp_path_ids := Some {|1, 2|}\<rparr>"
  let ?r1 = "\<lparr>sc_slot = 2, sc_qubit = ex_qubit 2 ELIGIBLE ''qBC'' (Some ''k3''),
               sc_fib_entry = ex_fib_entry 2,
               sc_epr = ex_pair\<lparr>tmp_path_ids := Some {|2|}\<rparr>,
               sc_epr1 = ex_pair\<lparr>name := ''e3'', tmp_path_ids := Some {|2|}\<rparr>\<rparr>"
  let ?r2 = "\<lparr>sc_slot = 2, sc_qubit = ex_qubit 2 ELIGIBLE ''qBC'' (Some ''k3''),
               sc_fib_entry = ex_fib_entry 2,
               sc_epr = ex_pair\<lparr>tmp_path_ids := Some {|1, 2|}\<rparr>,
               sc_epr1 = ex_pair\<lparr>name := ''e3'', tmp_path_ids := Some {|2, 3|}\<rparr>\<rparr>"
  have h1: "find_swap_candidate (ex_mux True) ?fib None 0 ex_swap_memory ?q ?e None
              = Inr (Some ?r1)"
    using ex_find_swap_candidate [of None 0 True 0] by simp
  have h2: "find_swap_candidate (ex_mux False) ?fib (Some (select_swap_qubit_random 7)) 4
              ex_swap_memory ?q ?e None = Inr (Some ?r2)"
    using ex_find_swap_candidate [of "Some (select_swap_qubit_random 7)" 7 False 4] by simp
  have s1: "case (None :: int SelectSwapQubit) of
              None \<Rightarrow> True
            | Some f \<Rightarrow> (\<forall>l. l \<noteq> [] \<longrightarrow> f ?q ?e None l \<in> set l)"
    by simp
  have s2: "case Some (select_swap_qubit_random 7) of
              None \<Rightarrow> True
            | Some f \<Rightarrow> (\<forall>l. l \<noteq> [] \<longrightarrow> f ?q ?e None l \<in> set l)"
    by (simp add: select_swap_qubit_random_def)
  from C4_find_swap_candidate [OF h1 s1] C4_find_swap_candidate [OF h2 s2] h1 h2
  show ?thesis
    by (simp add: ex_qubit_def ex_fib_entry_def)
qed

section \<open>Properties of the quantum memory\<close>


lemma find_index_None: "find_index P xs = None \<longleftrightarrow> (\<forall>x \<in> set xs. \<not> P x)"
  by (induction xs) auto

lemma memory_write_None:
  "(\<forall>slot \<in> set (storage m). \<not> slot_matches pid k slot) \<Longrightarrow> memory_write m c pid k = (None, m)"
  by (simp add: memory_write_def find_index_None [THEN iffD2])








section \<open>Properties of the link layer\<close>

lemma update_qubit_simps:
  "memory (update_qubit a f s) = (memory s)\<lparr>storage := (storage (memory s))
        [a := (f (fst (storage (memory s) ! a)), snd (storage (memory s) ! a))]\<rparr>"
  "active_channels (update_qubit a f s) = active_channels s"
  "pending_init_reservation (update_qubit a f s) = pending_init_reservation s"
  "fifo_reservation_req (update_qubit a f s) = fifo_reservation_req s"
  "etg_count (update_qubit a f s) = etg_count s"
  "decoh_count (update_qubit a f s) = decoh_count s"
  "is_async (update_qubit a f s) = is_async s"
  "get_cchannel (update_qubit a f s) = get_cchannel s"
  "sent (update_qubit a f s) = sent s"
  "events (update_qubit a f s) = events s"
  "own (update_qubit a f s) = own s"
  "tc (update_qubit a f s) = tc s"
  by (simp_all add: update_qubit_def)

text \<open>
  C3. \<^verbatim>\<open>generate_entanglement\<close>: when the later of the two notification times is
  outside the external phase, the call changes nothing (no event is added, and the
  reservations, the queue and the counters are as before); otherwise it adds
  exactly two \<^verbatim>\<open>LinkArchSuccessEvent\<close>s for the same pair, the first for the own node
  at its notification time and the second for the next hop at its notification
  time, and changes nothing else.
\<close>

theorem C3_generate_entanglement:
  fixes s :: "('t::{plus,ord}) LinkLayer"
  defines "e \<equiv> \<lambda>s k dc nm next_hop a.
             \<lparr>name = nm, fidelity = init_fidelity s, creation_time = tc s + dc,
              decoherence_time = None, src = Some (own s), dst = Some next_hop,
              attempts = k, key = active (fst (storage (memory s) ! a)),
              tmp_path_ids = None\<rparr>"
  shows "(\<not> is_external s (max (tc s + (dc + da)) (tc s + (dc + db))) \<longrightarrow>
            generate_entanglement s k (dc, da, db) nm next_hop a = s)
       \<and> (is_external s (max (tc s + (dc + da)) (tc s + (dc + db))) \<longrightarrow>
            generate_entanglement s k (dc, da, db) nm next_hop a
              = s\<lparr>events := events s @
                    [LinkArchSuccessEvent (own s) (e s k dc nm next_hop a) (tc s + (dc + da)),
                     LinkArchSuccessEvent next_hop (e s k dc nm next_hop a)
                       (tc s + (dc + db))]\<rparr>)"
  by (simp add: generate_entanglement_def Let_def e_def)

theorem C3_generate_entanglement_witness:
  "generate_entanglement
     (ex_link_layer ''A'' False 0 [(ex_qubit 0 RESERVED ''qAB'' (Some ''k1''), None)])
     2 (1, 2, 30) ''e1'' ''B'' 0
     = ex_link_layer ''A'' False 0 [(ex_qubit 0 RESERVED ''qAB'' (Some ''k1''), None)]
   \<and> events (generate_entanglement
        (ex_link_layer ''A'' False 0 [(ex_qubit 0 RESERVED ''qAB'' (Some ''k1''), None)])
        2 (1, 2, 3) ''e1'' ''B'' 0)
     = [LinkArchSuccessEvent ''A''
          \<lparr>name = ''e1'', fidelity = 1, creation_time = 1, decoherence_time = None,
           src = Some ''A'', dst = Some ''B'', attempts = 2, key = Some ''k1'',
           tmp_path_ids = None\<rparr> 3,
        LinkArchSuccessEvent ''B''
          \<lparr>name = ''e1'', fidelity = 1, creation_time = 1, decoherence_time = None,
           src = Some ''A'', dst = Some ''B'', attempts = 2, key = Some ''k1'',
           tmp_path_ids = None\<rparr> 4]"
  using C3_generate_entanglement
          [where s = "ex_link_layer ''A'' False 0 [(ex_qubit 0 RESERVED ''qAB'' (Some ''k1''), None)]"
             and dc = 1 and da = 2 and db = 30 and k = 2 and nm = "''e1''" and next_hop = "''B''"
             and a = 0]
        C3_generate_entanglement
          [where s = "ex_link_layer ''A'' False 0 [(ex_qubit 0 RESERVED ''qAB'' (Some ''k1''), None)]"
             and dc = 1 and da = 2 and db = 3 and k = 2 and nm = "''e1''" and next_hop = "''B''"
             and a = 0]
  by (simp add: ex_link_layer_def ex_memory_def ex_qubit_def)

text \<open>
  C7, as the code has it. A decoherence or release event for a qubit whose (channel,
  path_id) is in the active-channel table: the qubit is reset to \<^verbatim>\<open>RAW\<close> with its
  key cleared; in asynchronous mode the handler then is \<^verbatim>\<open>start_reservation\<close> toward
  the recorded neighbor (with a fresh key and a classical channel to the neighbor,
  the qubit becomes \<^verbatim>\<open>ACTIVE\<close> under the new key, the reservation is pending and
  \<^verbatim>\<open>RESERVE_QUBIT\<close> is sent); in synchronous mode a decoherence raises, and an
  explicit release returns with the qubit reset and nothing else changed.
\<close>

theorem C7_initiator_restart:
  assumes a: "event_qubit ev < length (storage (memory s))"
    and q: "fst (storage (memory s) ! event_qubit ev) = q"
    and ch: "qchannel q = Some qch"
    and ac: "active_channels s (qch, path_id q) = Some (next_hop, n)"
  shows "state (fst (storage (memory (reset_qubit s ev)) ! event_qubit ev)) = RAW
       \<and> active (fst (storage (memory (reset_qubit s ev)) ! event_qubit ev)) = None
       \<and> (is_async s \<longrightarrow>
            handle_decoh_rel s k ev
              = start_reservation (reset_qubit s ev) k next_hop qch (event_qubit ev))
       \<and> (is_async s \<and> k \<notin> dom (pending_init_reservation s)
            \<and> get_cchannel s next_hop = Some cc \<longrightarrow>
            (\<exists>s'. handle_decoh_rel s k ev = Inr s'
               \<and> state (fst (storage (memory s') ! event_qubit ev)) = ACTIVE
               \<and> active (fst (storage (memory s') ! event_qubit ev)) = Some k
               \<and> pending_init_reservation s' k = Some (qch, next_hop, event_qubit ev)
               \<and> sent s' = sent s @
                    [\<lparr>pkt_cchannel = cc,
                      pkt_msg = \<lparr>msg_cmd = RESERVE_QUBIT, msg_path_id = path_id q, msg_key = k\<rparr>,
                      pkt_src = own s, pkt_dest = next_hop, pkt_next_hop = next_hop\<rparr>]))
       \<and> (\<not> is_async s \<and> is_decoh ev \<longrightarrow> handle_decoh_rel s k ev = Inl Exception)
       \<and> (\<not> is_async s \<and> \<not> is_decoh ev \<longrightarrow>
            handle_decoh_rel s k ev = Inr (reset_qubit s ev))"
proof -
  let ?a = "event_qubit ev"
  let ?s2 = "reset_qubit s ev"
  have mem: "fst (storage (memory ?s2) ! ?a) = q\<lparr>state := RAW, active := None\<rparr>"
    using a q by (simp add: reset_qubit_def update_qubit_simps)
  have same: "active_channels ?s2 = active_channels s" "is_async ?s2 = is_async s"
    "pending_init_reservation ?s2 = pending_init_reservation s"
    "get_cchannel ?s2 = get_cchannel s" "sent ?s2 = sent s" "own ?s2 = own s"
    "length (storage (memory ?s2)) = length (storage (memory s))"
    by (simp_all add: reset_qubit_def update_qubit_simps)
  have h: "handle_decoh_rel s k ev =
             (if is_async s then start_reservation ?s2 k next_hop qch ?a
              else if is_decoh ev then Inl Exception else Inr ?s2)"
    using ch ac by (simp add: handle_decoh_rel_def Let_def mem same)
  have start: "start_reservation ?s2 k next_hop qch ?a = Inr s' \<and>
       state (fst (storage (memory s') ! ?a)) = ACTIVE \<and>
       active (fst (storage (memory s') ! ?a)) = Some k \<and>
       pending_init_reservation s' k = Some (qch, next_hop, ?a) \<and>
       sent s' = sent s @
         [\<lparr>pkt_cchannel = cc,
           pkt_msg = \<lparr>msg_cmd = RESERVE_QUBIT, msg_path_id = path_id q, msg_key = k\<rparr>,
           pkt_src = own s, pkt_dest = next_hop, pkt_next_hop = next_hop\<rparr>]"
    if fresh: "k \<notin> dom (pending_init_reservation s)"
      and cch: "get_cchannel s next_hop = Some cc"
      and s': "s' = (update_qubit ?a (\<lambda>q. q\<lparr>state := ACTIVE, active := Some k\<rparr>) ?s2)
                     \<lparr>pending_init_reservation :=
                        (pending_init_reservation s)(k \<mapsto> (qch, next_hop, ?a)),
                      sent := sent s @
         [\<lparr>pkt_cchannel = cc,
           pkt_msg = \<lparr>msg_cmd = RESERVE_QUBIT, msg_path_id = path_id q, msg_key = k\<rparr>,
           pkt_src = own s, pkt_dest = next_hop, pkt_next_hop = next_hop\<rparr>]\<rparr>"
    for s'
    using fresh cch a mem unfolding s'
    by (simp add: start_reservation_def Let_def update_qubit_simps same)
  show ?thesis
    using mem h start by auto
qed

theorem C7_initiator_restart_witness:
  "handle_decoh_rel
     (ex_link_layer ''A'' True 5 [(ex_qubit 0 ENTANGLED0 ''qAB'' (Some ''k0''), None)])
     ''k1'' (QubitDecoheredEvent 0)
   = start_reservation
       (reset_qubit
          (ex_link_layer ''A'' True 5 [(ex_qubit 0 ENTANGLED0 ''qAB'' (Some ''k0''), None)])
          (QubitDecoheredEvent 0))
       ''k1'' ''B'' ''qAB'' 0
   \<and> handle_decoh_rel
       (ex_link_layer ''A'' False 5 [(ex_qubit 0 ENTANGLED0 ''qAB'' (Some ''k0''), None)])
       ''k1'' (QubitDecoheredEvent 0) = Inl Exception"
  using C7_initiator_restart
          [where s = "ex_link_layer ''A'' True 5 [(ex_qubit 0 ENTANGLED0 ''qAB'' (Some ''k0''), None)]"
             and ev = "QubitDecoheredEvent 0" and k = "''k1''" and qch = "''qAB''"
             and q = "ex_qubit 0 ENTANGLED0 ''qAB'' (Some ''k0'')" and next_hop = "''B''"
             and n = 1 and cc = "''cAB''"]
        C7_initiator_restart
          [where s = "ex_link_layer ''A'' False 5 [(ex_qubit 0 ENTANGLED0 ''qAB'' (Some ''k0''), None)]"
             and ev = "QubitDecoheredEvent 0" and k = "''k1''" and qch = "''qAB''"
             and q = "ex_qubit 0 ENTANGLED0 ''qAB'' (Some ''k0'')" and next_hop = "''B''"
             and n = 1 and cc = "''cAB''"]
  by (simp add: ex_link_layer_def ex_memory_def ex_qubit_def event_qubit_def is_decoh_def)

text \<open>
  In synchronous mode an explicit release of an initiator-side qubit is not an
  error: the handler returns, the qubit is \<^verbatim>\<open>RAW\<close>.
\<close>

theorem C7_sync_release_counterexample:
  "\<not> is_async (ex_link_layer ''A'' False 5 [(ex_qubit 0 ENTANGLED0 ''qAB'' (Some ''k0''), None)])
   \<and> active_channels
        (ex_link_layer ''A'' False 5 [(ex_qubit 0 ENTANGLED0 ''qAB'' (Some ''k0''), None)])
        (''qAB'', None) = Some (''B'', 1)
   \<and> handle_decoh_rel
        (ex_link_layer ''A'' False 5 [(ex_qubit 0 ENTANGLED0 ''qAB'' (Some ''k0''), None)])
        ''k1'' (QubitReleasedEvent 0)
      = Inr (ex_link_layer ''A'' False 5 [(ex_qubit 0 RAW ''qAB'' None, None)])"
  by (simp add: handle_decoh_rel_def reset_qubit_def Let_def update_qubit_def
        ex_link_layer_def ex_memory_def ex_qubit_def event_qubit_def is_decoh_def)

lemma filter_enumerate_none:
  "(\<forall>j < length xs. \<not> P (xs ! j)) \<Longrightarrow> filter (\<lambda>(i, x). P x) (enumerate n xs) = []"
proof (induction xs arbitrary: n)
  case Nil
  then show ?case by simp
next
  case (Cons x xs)
  from Cons.prems have "\<not> P x" by force
  moreover from Cons.prems have "\<forall>j < length xs. \<not> P (xs ! j)" by force
  ultimately show ?case using Cons.IH by simp
qed

lemma filter_enumerate_first:
  "a < length xs \<Longrightarrow> P (xs ! a) \<Longrightarrow> (\<forall>j < a. \<not> P (xs ! j))
   \<Longrightarrow> \<exists>rest. filter (\<lambda>(i, x). P x) (enumerate n xs) = (n + a, xs ! a) # rest"
proof (induction xs arbitrary: a n)
  case Nil
  then show ?case by simp
next
  case (Cons x xs)
  show ?case
  proof (cases a)
    case 0
    with Cons.prems show ?thesis by simp
  next
    case (Suc a')
    with Cons.prems have "\<not> P x" by force
    moreover have "\<exists>rest. filter (\<lambda>(i, x). P x) (enumerate (Suc n) xs)
                           = (Suc n + a', xs ! a') # rest"
    proof (rule Cons.IH)
      show "a' < length xs" using Cons.prems Suc by simp
      show "P (xs ! a')" using Cons.prems Suc by simp
      show "\<forall>j < a'. \<not> P (xs ! j)"
      proof (intro allI impI)
        fix j assume "j < a'"
        then have "Suc j < a" using Suc by simp
        with Cons.prems have "\<not> P ((x # xs) ! Suc j)" by blast
        then show "\<not> P (xs ! j)" by simp
      qed
    qed
    ultimately show ?thesis using Suc by simp
  qed
qed

lemma memory_find_all_split:
  "memory_find p False m = filter (\<lambda>(i, x). p (fst x) (snd x)) (enumerate 0 (storage m))"
  unfolding memory_find_def by (rule arg_cong2 [where f = filter]) (auto simp: fun_eq_iff)

lemma first_or_none_reservable:
  "none_reservable s req \<or> (\<exists>a. first_reservable s req a)"
proof (cases "none_reservable s req")
  case True
  then show ?thesis by simp
next
  case False
  define P where "P = (\<lambda>j. j < length (storage (memory s)) \<and>
              reservable req (fst (storage (memory s) ! j)) (snd (storage (memory s) ! j)))"
  from False have "\<exists>j. P j"
    unfolding none_reservable_def P_def by simp
  then have "\<exists>a. P a \<and> (\<forall>j < a. \<not> P j)"
    by (subst (asm) exists_least_iff)
  then obtain a where a: "P a" and least: "\<forall>j < a. \<not> P j" by blast
  have "\<not> reservable req (fst (storage (memory s) ! j)) (snd (storage (memory s) ! j))"
    if "j < a" for j
  proof -
    from a have "a < length (storage (memory s))" by (simp add: P_def)
    with that have "j < length (storage (memory s))" by simp
    moreover from least that have "\<not> P j" by simp
    ultimately show ?thesis by (simp add: P_def)
  qed
  with a have "first_reservable s req a"
    by (simp add: first_reservable_def P_def)
  then show ?thesis by blast
qed

lemma first_reservable_not_none:
  "first_reservable s req a \<Longrightarrow> \<not> none_reservable s req"
  by (auto simp: first_reservable_def none_reservable_def)

lemma try_accept_none:
  "none_reservable s req \<Longrightarrow> try_accept_reservation s req = (False, s)"
  unfolding none_reservable_def try_accept_reservation_def memory_find_all_split
  by (simp add: filter_enumerate_none [where P = "\<lambda>x. reservable req (fst x) (snd x)"])

lemma try_accept_first:
  assumes "first_reservable s req a"
  shows "try_accept_reservation s req =
           (True,
            (update_qubit a (\<lambda>q. q\<lparr>state := RESERVED, active := Some (req_key req)\<rparr>) s)
              \<lparr>sent := sent s @
                 [\<lparr>pkt_cchannel = req_cchannel req,
                   pkt_msg = \<lparr>msg_cmd = RESERVE_QUBIT_OK, msg_path_id = req_path_id req,
                              msg_key = req_key req\<rparr>,
                   pkt_src = own s, pkt_dest = req_from_node req,
                   pkt_next_hop = req_from_node req\<rparr>]\<rparr>)"
proof -
  from assms have a: "a < length (storage (memory s))"
    and p: "reservable req (fst (storage (memory s) ! a)) (snd (storage (memory s) ! a))"
    and first: "\<forall>j < a. \<not> reservable req (fst (storage (memory s) ! j))
                                         (snd (storage (memory s) ! j))"
    by (simp_all add: first_reservable_def)
  obtain rest where
    "memory_find (reservable req) False (memory s) = (a, storage (memory s) ! a) # rest"
    using filter_enumerate_first [where P = "\<lambda>x. reservable req (fst x) (snd x)", OF a p first,
            of 0]
    unfolding memory_find_all_split by auto
  moreover have "update_qubit a (\<lambda>q. q\<lparr>state := RESERVED, active := Some (req_key req)\<rparr>)
                   (update_qubit a (\<lambda>q. q\<lparr>state := ACTIVE\<rparr>) s)
                 = update_qubit a (\<lambda>q. q\<lparr>state := RESERVED, active := Some (req_key req)\<rparr>) s"
    using a by (simp add: update_qubit_def)
  ultimately show ?thesis
    by (cases "storage (memory s) ! a")
       (simp add: try_accept_reservation_def Let_def update_qubit_simps)
qed

lemma reset_qubit_fifo: "fifo_reservation_req (reset_qubit s ev) = fifo_reservation_req s"
  by (simp add: reset_qubit_def update_qubit_simps)

lemma start_reservation_fifo:
  "start_reservation s k nh qch a = Inr s' \<Longrightarrow> fifo_reservation_req s' = fifo_reservation_req s"
  by (auto simp: start_reservation_def Let_def update_qubit_simps split: if_splits option.splits)

lemma try_accept_fifo:
  "try_accept_reservation s req = (b, s') \<Longrightarrow> fifo_reservation_req s' = fifo_reservation_req s"
  using first_or_none_reservable [of s req]
  by (auto simp: try_accept_none try_accept_first update_qubit_simps)

lemma try_accept_iff:
  "fst (try_accept_reservation s req) \<longleftrightarrow> (\<exists>a. first_reservable s req a)"
  using first_or_none_reservable [of s req] first_reservable_not_none [of s req]
  by (auto simp: try_accept_none try_accept_first)

text \<open>
  C6. A \<^verbatim>\<open>RESERVE_QUBIT\<close> request whose peer and quantum channel resolve: if slot \<open>a\<close>
  holds the first qubit that is unoccupied, not part of an active reservation,
  assigned to the request's channel and allocated to its path_id, that qubit
  becomes \<^verbatim>\<open>RESERVED\<close> under the request's key and \<^verbatim>\<open>RESERVE_QUBIT_OK\<close> with the same
  path_id and key is sent back, nothing else changing; if there is no such qubit,
  the request is appended to the queue, nothing else changing. A release or
  decoherence handled afterwards either leaves the queue as it is or removes
  exactly its oldest request, and only when that request is accepted; on the
  responder side with a non-empty queue the oldest request is accepted and removed
  if a qubit is available after the reset, and stays queued otherwise.
\<close>

theorem C6_reservation_request:
  assumes fp: "find_peer s cc = Some from_node"
    and gq: "get_qchannel s from_node = Some qch"
    and req: "req = \<lparr>req_key = msg_key msg, req_path_id = msg_path_id msg, req_cchannel = cc,
                      req_from_node = from_node, req_qchannel = qch\<rparr>"
  shows "(first_reservable s req a \<longrightarrow>
            handle_reserve_req s msg cc =
              Inr ((update_qubit a (\<lambda>q. q\<lparr>state := RESERVED, active := Some (msg_key msg)\<rparr>) s)
                     \<lparr>sent := sent s @
                        [\<lparr>pkt_cchannel = cc,
                          pkt_msg = \<lparr>msg_cmd = RESERVE_QUBIT_OK, msg_path_id = msg_path_id msg,
                                     msg_key = msg_key msg\<rparr>,
                          pkt_src = own s, pkt_dest = from_node, pkt_next_hop = from_node\<rparr>]\<rparr>))
       \<and> (none_reservable s req \<longrightarrow>
            handle_reserve_req s msg cc =
              Inr (s\<lparr>fifo_reservation_req := fifo_reservation_req s @ [req]\<rparr>))
       \<and> (handle_decoh_rel sd k ev = Inr s' \<longrightarrow>
            fifo_reservation_req s' = fifo_reservation_req sd
            \<or> (\<exists>r rest s3. fifo_reservation_req sd = r # rest
                  \<and> try_accept_reservation (reset_qubit sd ev) r = (True, s3)
                  \<and> (\<exists>a. first_reservable (reset_qubit sd ev) r a)
                  \<and> s' = s3\<lparr>fifo_reservation_req := rest\<rparr>))
       \<and> (qchannel (fst (storage (memory (reset_qubit sd ev)) ! event_qubit ev)) = Some qchd
            \<and> active_channels sd
                  (qchd, path_id (fst (storage (memory (reset_qubit sd ev)) ! event_qubit ev)))
                = None
            \<and> fifo_reservation_req sd = rq # rqs \<longrightarrow>
            (first_reservable (reset_qubit sd ev) rq ad \<longrightarrow>
               handle_decoh_rel sd k ev =
                 Inr ((update_qubit ad
                         (\<lambda>q. q\<lparr>state := RESERVED, active := Some (req_key rq)\<rparr>)
                         (reset_qubit sd ev))
                        \<lparr>sent := sent sd @
                           [\<lparr>pkt_cchannel = req_cchannel rq,
                             pkt_msg = \<lparr>msg_cmd = RESERVE_QUBIT_OK,
                                        msg_path_id = req_path_id rq, msg_key = req_key rq\<rparr>,
                             pkt_src = own sd, pkt_dest = req_from_node rq,
                             pkt_next_hop = req_from_node rq\<rparr>],
                          fifo_reservation_req := rqs\<rparr>))
            \<and> (none_reservable (reset_qubit sd ev) rq \<longrightarrow>
                 handle_decoh_rel sd k ev = Inr (reset_qubit sd ev)
                 \<and> fifo_reservation_req (reset_qubit sd ev) = rq # rqs))"
proof (intro conjI impI; (elim conjE)?)
  assume chd: "qchannel (fst (storage (memory (reset_qubit sd ev)) ! event_qubit ev)) = Some qchd"
    and acd: "active_channels sd
                  (qchd, path_id (fst (storage (memory (reset_qubit sd ev)) ! event_qubit ev)))
                = None"
    and fd: "fifo_reservation_req sd = rq # rqs"
    and fr: "first_reservable (reset_qubit sd ev) rq ad"
  have same: "active_channels (reset_qubit sd ev) = active_channels sd"
    "sent (reset_qubit sd ev) = sent sd" "own (reset_qubit sd ev) = own sd"
    by (simp_all add: reset_qubit_def update_qubit_simps)
  show "handle_decoh_rel sd k ev =
                 Inr ((update_qubit ad
                         (\<lambda>q. q\<lparr>state := RESERVED, active := Some (req_key rq)\<rparr>)
                         (reset_qubit sd ev))
                        \<lparr>sent := sent sd @
                           [\<lparr>pkt_cchannel = req_cchannel rq,
                             pkt_msg = \<lparr>msg_cmd = RESERVE_QUBIT_OK,
                                        msg_path_id = req_path_id rq, msg_key = req_key rq\<rparr>,
                             pkt_src = own sd, pkt_dest = req_from_node rq,
                             pkt_next_hop = req_from_node rq\<rparr>],
                          fifo_reservation_req := rqs\<rparr>)"
    using chd acd fd try_accept_first [OF fr]
    by (simp add: handle_decoh_rel_def Let_def same reset_qubit_fifo)
next
  assume chd: "qchannel (fst (storage (memory (reset_qubit sd ev)) ! event_qubit ev)) = Some qchd"
    and acd: "active_channels sd
                  (qchd, path_id (fst (storage (memory (reset_qubit sd ev)) ! event_qubit ev)))
                = None"
    and fd: "fifo_reservation_req sd = rq # rqs"
    and nr: "none_reservable (reset_qubit sd ev) rq"
  have same: "active_channels (reset_qubit sd ev) = active_channels sd"
    by (simp add: reset_qubit_def update_qubit_simps)
  show "handle_decoh_rel sd k ev = Inr (reset_qubit sd ev)"
    using chd acd fd try_accept_none [OF nr]
    by (simp add: handle_decoh_rel_def Let_def same reset_qubit_fifo)
  show "fifo_reservation_req (reset_qubit sd ev) = rq # rqs"
    using fd by (simp add: reset_qubit_fifo)
next
  assume "first_reservable s req a"
  then show "handle_reserve_req s msg cc =
              Inr ((update_qubit a (\<lambda>q. q\<lparr>state := RESERVED, active := Some (msg_key msg)\<rparr>) s)
                     \<lparr>sent := sent s @
                        [\<lparr>pkt_cchannel = cc,
                          pkt_msg = \<lparr>msg_cmd = RESERVE_QUBIT_OK, msg_path_id = msg_path_id msg,
                                     msg_key = msg_key msg\<rparr>,
                          pkt_src = own s, pkt_dest = from_node, pkt_next_hop = from_node\<rparr>]\<rparr>)"
    using fp gq try_accept_first [of s req a] unfolding req
    by (simp add: handle_reserve_req_def Let_def)
next
  assume "none_reservable s req"
  then show "handle_reserve_req s msg cc =
              Inr (s\<lparr>fifo_reservation_req := fifo_reservation_req s @ [req]\<rparr>)"
    using fp gq try_accept_none [of s req] unfolding req
    by (simp add: handle_reserve_req_def Let_def)
next
  assume h: "handle_decoh_rel sd k ev = Inr s'"
  let ?s2 = "reset_qubit sd ev"
  let ?q = "fst (storage (memory ?s2) ! event_qubit ev)"
  from h obtain qch' where ch: "qchannel ?q = Some qch'"
    by (auto simp: handle_decoh_rel_def Let_def split: option.splits)
  show "fifo_reservation_req s' = fifo_reservation_req sd
            \<or> (\<exists>r rest s3. fifo_reservation_req sd = r # rest
                  \<and> try_accept_reservation (reset_qubit sd ev) r = (True, s3)
                  \<and> (\<exists>a. first_reservable (reset_qubit sd ev) r a)
                  \<and> s' = s3\<lparr>fifo_reservation_req := rest\<rparr>)"
  proof (cases "active_channels ?s2 (qch', path_id ?q)")
    case (Some ac)
    obtain nh n where ac: "ac = (nh, n)" by (cases ac)
    from h ch Some ac have
      "(is_async ?s2 \<and> start_reservation ?s2 k nh qch' (event_qubit ev) = Inr s')
       \<or> s' = ?s2"
      by (auto simp: handle_decoh_rel_def Let_def split: if_splits)
    then show ?thesis
      using start_reservation_fifo [of ?s2 k nh qch' "event_qubit ev" s'] reset_qubit_fifo [of sd ev]
      by auto
  next
    case None
    show ?thesis
    proof (cases "fifo_reservation_req sd")
      case Nil
      with h ch None have "s' = ?s2"
        by (simp add: handle_decoh_rel_def Let_def reset_qubit_fifo)
      then show ?thesis by (simp add: reset_qubit_fifo)
    next
      case (Cons r rest)
      obtain b s3 where t: "try_accept_reservation ?s2 r = (b, s3)"
        by (cases "try_accept_reservation ?s2 r")
      show ?thesis
      proof (cases b)
        case True
        with h ch None Cons t have "s' = s3\<lparr>fifo_reservation_req := rest\<rparr>"
          by (simp add: handle_decoh_rel_def Let_def reset_qubit_fifo)
        moreover from t True have "\<exists>a. first_reservable ?s2 r a"
          using try_accept_iff [of ?s2 r] by simp
        ultimately show ?thesis using Cons t True by simp
      next
        case False
        with h ch None Cons t have "s' = s3"
          by (simp add: handle_decoh_rel_def Let_def reset_qubit_fifo)
        then show ?thesis using try_accept_fifo [OF t] by (simp add: reset_qubit_fifo)
      qed
    qed
  qed
qed


theorem C6_reservation_request_witness:
  "handle_reserve_req
     (ex_link_layer ''B'' True 0
        [(ex_qubit 0 RESERVED ''qAB'' (Some ''k0''), None), (ex_qubit 1 RAW ''qAB'' None, None)])
     \<lparr>msg_cmd = RESERVE_QUBIT, msg_path_id = None, msg_key = ''k1''\<rparr> ''cAB''
   = Inr ((ex_link_layer ''B'' True 0
        [(ex_qubit 0 RESERVED ''qAB'' (Some ''k0''), None),
         (ex_qubit 1 RESERVED ''qAB'' (Some ''k1''), None)])
        \<lparr>sent := [\<lparr>pkt_cchannel = ''cAB'',
                   pkt_msg = \<lparr>msg_cmd = RESERVE_QUBIT_OK, msg_path_id = None, msg_key = ''k1''\<rparr>,
                   pkt_src = ''B'', pkt_dest = ''A'', pkt_next_hop = ''A''\<rparr>]\<rparr>)
   \<and> handle_reserve_req
       (ex_link_layer ''B'' True 0 [(ex_qubit 0 RESERVED ''qAB'' (Some ''k0''), None)])
       \<lparr>msg_cmd = RESERVE_QUBIT, msg_path_id = None, msg_key = ''k1''\<rparr> ''cAB''
     = Inr ((ex_link_layer ''B'' True 0 [(ex_qubit 0 RESERVED ''qAB'' (Some ''k0''), None)])
          \<lparr>fifo_reservation_req :=
             [\<lparr>req_key = ''k1'', req_path_id = None, req_cchannel = ''cAB'',
               req_from_node = ''A'', req_qchannel = ''qAB''\<rparr>]\<rparr>)
   \<and> handle_decoh_rel
       ((ex_link_layer ''B'' True 0 [(ex_qubit 0 ENTANGLED0 ''qAB'' (Some ''k0''), None)])
          \<lparr>fifo_reservation_req :=
             [\<lparr>req_key = ''k1'', req_path_id = None, req_cchannel = ''cAB'',
               req_from_node = ''A'', req_qchannel = ''qAB''\<rparr>]\<rparr>)
       ''k9'' (QubitReleasedEvent 0)
     = Inr ((ex_link_layer ''B'' True 0 [(ex_qubit 0 RESERVED ''qAB'' (Some ''k1''), None)])
          \<lparr>sent := [\<lparr>pkt_cchannel = ''cAB'',
                   pkt_msg = \<lparr>msg_cmd = RESERVE_QUBIT_OK, msg_path_id = None, msg_key = ''k1''\<rparr>,
                   pkt_src = ''B'', pkt_dest = ''A'', pkt_next_hop = ''A''\<rparr>]\<rparr>)"
proof -
  let ?rq = "\<lparr>req_key = ''k1'', req_path_id = None, req_cchannel = ''cAB'',
              req_from_node = ''A'', req_qchannel = ''qAB''\<rparr>"
  let ?msg = "\<lparr>msg_cmd = RESERVE_QUBIT, msg_path_id = None, msg_key = ''k1''\<rparr>"
  let ?s1 = "ex_link_layer ''B'' True 0
               [(ex_qubit 0 RESERVED ''qAB'' (Some ''k0''), None),
                (ex_qubit 1 RAW ''qAB'' None, None)]"
  let ?s2 = "ex_link_layer ''B'' True 0 [(ex_qubit 0 RESERVED ''qAB'' (Some ''k0''), None)]"
  let ?sd = "(ex_link_layer ''B'' True 0 [(ex_qubit 0 ENTANGLED0 ''qAB'' (Some ''k0''), None)])
               \<lparr>fifo_reservation_req := [?rq]\<rparr>"
  have hyps: "find_peer ?s1 ''cAB'' = Some ''A''" "get_qchannel ?s1 ''A'' = Some ''qAB''"
    "find_peer ?s2 ''cAB'' = Some ''A''" "get_qchannel ?s2 ''A'' = Some ''qAB''"
    by (simp_all add: ex_link_layer_def)
  have hreq: "?rq = \<lparr>req_key = msg_key ?msg, req_path_id = msg_path_id ?msg,
                      req_cchannel = ''cAB'', req_from_node = ''A'', req_qchannel = ''qAB''\<rparr>"
    by simp
  have p1: "first_reservable ?s1 ?rq 1"
    by (simp add: ex_link_layer_def ex_memory_def ex_qubit_def first_reservable_def
          reservable_def py_not_def)
  have p2: "none_reservable ?s2 ?rq"
    by (simp add: ex_link_layer_def ex_memory_def ex_qubit_def none_reservable_def
          reservable_def py_not_def)
  have p3: "qchannel (fst (storage (memory (reset_qubit ?sd (QubitReleasedEvent 0)))
                        ! event_qubit (QubitReleasedEvent 0))) = Some ''qAB''
            \<and> active_channels ?sd (''qAB'', path_id (fst (storage (memory
                  (reset_qubit ?sd (QubitReleasedEvent 0))) ! event_qubit (QubitReleasedEvent 0))))
                = None
            \<and> fifo_reservation_req ?sd = ?rq # []"
    by (simp add: ex_link_layer_def ex_memory_def ex_qubit_def reset_qubit_def update_qubit_def
          event_qubit_def is_decoh_def)
  have p4: "first_reservable (reset_qubit ?sd (QubitReleasedEvent 0)) ?rq 0"
    by (simp add: ex_link_layer_def ex_memory_def ex_qubit_def first_reservable_def
          reservable_def py_not_def reset_qubit_def update_qubit_def event_qubit_def is_decoh_def)
  note t1 = C6_reservation_request [where s = ?s1 and cc = "''cAB''" and from_node = "''A''"
      and qch = "''qAB''" and msg = ?msg and req = ?rq and a = 1 and sd = ?sd and k = "''k9''"
      and ev = "QubitReleasedEvent 0" and qchd = "''qAB''" and rq = ?rq and rqs = "[]" and ad = 0
      and s' = undefined, OF hyps(1) hyps(2) hreq]
  note t2 = C6_reservation_request [where s = ?s2 and cc = "''cAB''" and from_node = "''A''"
      and qch = "''qAB''" and msg = ?msg and req = ?rq, OF hyps(3) hyps(4) hreq]
  have r1: "handle_reserve_req ?s1 ?msg ''cAB'' =
        Inr ((update_qubit 1 (\<lambda>q. q\<lparr>state := RESERVED, active := Some (msg_key ?msg)\<rparr>) ?s1)
               \<lparr>sent := sent ?s1 @
                  [\<lparr>pkt_cchannel = ''cAB'',
                    pkt_msg = \<lparr>msg_cmd = RESERVE_QUBIT_OK, msg_path_id = msg_path_id ?msg,
                               msg_key = msg_key ?msg\<rparr>,
                    pkt_src = own ?s1, pkt_dest = ''A'', pkt_next_hop = ''A''\<rparr>]\<rparr>)"
    using t1 [THEN conjunct1] p1 by simp
  have r2: "handle_reserve_req ?s2 ?msg ''cAB'' =
        Inr (?s2\<lparr>fifo_reservation_req := fifo_reservation_req ?s2 @ [?rq]\<rparr>)"
    using t2 [THEN conjunct2, THEN conjunct1] p2 by simp
  have r3: "handle_decoh_rel ?sd ''k9'' (QubitReleasedEvent 0) =
        Inr ((update_qubit 0 (\<lambda>q. q\<lparr>state := RESERVED, active := Some (req_key ?rq)\<rparr>)
                (reset_qubit ?sd (QubitReleasedEvent 0)))
               \<lparr>sent := sent ?sd @
                  [\<lparr>pkt_cchannel = req_cchannel ?rq,
                    pkt_msg = \<lparr>msg_cmd = RESERVE_QUBIT_OK, msg_path_id = req_path_id ?rq,
                               msg_key = req_key ?rq\<rparr>,
                    pkt_src = own ?sd, pkt_dest = req_from_node ?rq,
                    pkt_next_hop = req_from_node ?rq\<rparr>],
                 fifo_reservation_req := []\<rparr>)"
    using t1 [THEN conjunct2, THEN conjunct2, THEN conjunct2, THEN mp, OF p3, THEN conjunct1] p4
    by simp
  show ?thesis
    unfolding r1 r2 r3
    by (simp add: ex_link_layer_def ex_memory_def ex_qubit_def reset_qubit_def update_qubit_def
          event_qubit_def is_decoh_def)
qed

lemma find_index_first:
  "a < length xs \<Longrightarrow> P (xs ! a) \<Longrightarrow> \<forall>j < a. \<not> P (xs ! j) \<Longrightarrow> find_index P xs = Some a"
proof (induction xs arbitrary: a)
  case Nil
  then show ?case by simp
next
  case (Cons x xs)
  show ?case
  proof (cases a)
    case 0
    with Cons.prems show ?thesis by simp
  next
    case (Suc a')
    with Cons.prems have nx: "\<not> P x" by force
    have "find_index P xs = Some a'"
    proof (rule Cons.IH)
      show "a' < length xs" using Cons.prems Suc by simp
      show "P (xs ! a')" using Cons.prems Suc by simp
      show "\<forall>j < a'. \<not> P (xs ! j)"
      proof (intro allI impI)
        fix j assume "j < a'"
        then have "Suc j < a" using Suc by simp
        with Cons.prems have "\<not> P ((x # xs) ! Suc j)" by blast
        then show "\<not> P (xs ! j)" by simp
      qed
    qed
    with nx Suc show ?thesis by simp
  qed
qed

text \<open>
  C8, as the code has it. A \<^verbatim>\<open>LinkArchSuccessEvent\<close> delivery fails an assertion when
  the node is not in the external phase, the pair names no neighbor, or the pair
  has already decohered. Otherwise: if the memory has a free slot under the
  reservation key of the pair, the half-pair is written into the first such slot,
  the qubit of that slot becomes \<^verbatim>\<open>ENTANGLED0\<close>, a \<^verbatim>\<open>QubitEntangledEvent\<close> for the
  neighbor is scheduled at the current time, \<^verbatim>\<open>etg_count\<close> grows by one at the
  endpoint that is the source of the pair and stays as it is at the other endpoint,
  and nothing else changes; if there is no such slot, the handler raises. So two
  distinct endpoints that both handle the notification of a pair count it exactly
  once between them, whichever of them handles it first.
\<close>

theorem C8_success_entangle:
  fixes s :: "('t::{plus,ord}) LinkLayer"
  shows "((\<not> is_external s (tc s)
             \<or> (if src e = Some (own s) then dst e else src e) = None
             \<or> \<not> (case decoherence_time e of None \<Rightarrow> True | Some t \<Rightarrow> tc s < t)) \<longrightarrow>
            handle_success_entangle s e = Inl AssertionError)
       \<and> (is_external s (tc s)
            \<and> (if src e = Some (own s) then dst e else src e) = Some nb
            \<and> (case decoherence_time e of None \<Rightarrow> True | Some t \<Rightarrow> tc s < t) \<longrightarrow>
            ((\<forall>slot \<in> set (storage (memory s)). \<not> slot_matches None (key e) slot) \<longrightarrow>
               handle_success_entangle s e = Inl Exception)
            \<and> (a < length (storage (memory s))
                 \<and> slot_matches None (key e) (storage (memory s) ! a)
                 \<and> (\<forall>j < a. \<not> slot_matches None (key e) (storage (memory s) ! j)) \<longrightarrow>
                 handle_success_entangle s e =
                   Inr (s\<lparr>memory := (memory s)
                            \<lparr>storage := (storage (memory s))
                               [a := ((fst (storage (memory s) ! a))\<lparr>state := ENTANGLED0\<rparr>,
                                      Some (case decoherence_delay (memory s) of
                                              None \<Rightarrow> e
                                            | Some d \<Rightarrow>
                                                e\<lparr>decoherence_time :=
                                                    Some (creation_time e + d)\<rparr>))],
                             usage := usage (memory s) + 1,
                             decoherence_schedule :=
                               (case decoherence_delay (memory s) of
                                  None \<Rightarrow> decoherence_schedule (memory s)
                                | Some d \<Rightarrow> decoherence_schedule (memory s) @
                                             [(a, name e, creation_time e + d)])\<rparr>,
                          etg_count := etg_count s + (if src e = Some (own s) then 1 else 0),
                          events := events s @
                            [QubitEntangledEvent (own s) nb a (tc s)]\<rparr>)))
       \<and> (handle_success_entangle sa e = Inr sa' \<and> handle_success_entangle sb e = Inr sb'
            \<and> src e = Some (own sa) \<and> own sb \<noteq> own sa \<longrightarrow>
            etg_count sa' + etg_count sb' = etg_count sa + etg_count sb + 1)"
proof -
  have assert_fail: "handle_success_entangle s e = Inl AssertionError"
    if "\<not> is_external s (tc s)
        \<or> (if src e = Some (own s) then dst e else src e) = None
        \<or> \<not> (case decoherence_time e of None \<Rightarrow> True | Some t \<Rightarrow> tc s < t)"
  proof (cases "src e = Some (own s)")
    case True
    with that show ?thesis
      by (auto simp: handle_success_entangle_def Let_def split: option.splits)
  next
    case False
    with that show ?thesis
      by (auto simp: handle_success_entangle_def Let_def split: option.splits)
  qed
  have fatal: "handle_success_entangle s e = Inl Exception"
    if "is_external s (tc s)"
      "(if src e = Some (own s) then dst e else src e) = Some nb"
      "case decoherence_time e of None \<Rightarrow> True | Some t \<Rightarrow> tc s < t"
      "\<forall>slot \<in> set (storage (memory s)). \<not> slot_matches None (key e) slot"
  proof -
    have w: "memory_write (memory s) e None (key e) = (None, memory s)"
      using that(4) by (rule memory_write_None)
    show ?thesis
    proof (cases "src e = Some (own s)")
      case True
      with that(1,2,3) w show ?thesis
        by (simp add: handle_success_entangle_def Let_def split: option.splits)
    next
      case False
      with that(1,2,3) w show ?thesis
        by (simp add: handle_success_entangle_def Let_def)
    qed
  qed
  have stored: "handle_success_entangle s e =
                   Inr (s\<lparr>memory := (memory s)
                            \<lparr>storage := (storage (memory s))
                               [a := ((fst (storage (memory s) ! a))\<lparr>state := ENTANGLED0\<rparr>,
                                      Some (case decoherence_delay (memory s) of
                                              None \<Rightarrow> e
                                            | Some d \<Rightarrow>
                                                e\<lparr>decoherence_time :=
                                                    Some (creation_time e + d)\<rparr>))],
                             usage := usage (memory s) + 1,
                             decoherence_schedule :=
                               (case decoherence_delay (memory s) of
                                  None \<Rightarrow> decoherence_schedule (memory s)
                                | Some d \<Rightarrow> decoherence_schedule (memory s) @
                                             [(a, name e, creation_time e + d)])\<rparr>,
                          etg_count := etg_count s + (if src e = Some (own s) then 1 else 0),
                          events := events s @
                            [QubitEntangledEvent (own s) nb a (tc s)]\<rparr>)"
    if ext: "is_external s (tc s)"
      and nb: "(if src e = Some (own s) then dst e else src e) = Some nb"
      and dec: "case decoherence_time e of None \<Rightarrow> True | Some t \<Rightarrow> tc s < t"
      and a: "a < length (storage (memory s))"
      and sm: "slot_matches None (key e) (storage (memory s) ! a)"
      and first: "\<forall>j < a. \<not> slot_matches None (key e) (storage (memory s) ! j)"
  proof -
    have fi: "find_index (slot_matches None (key e)) (storage (memory s)) = Some a"
      using a sm first by (rule find_index_first)
    show ?thesis
    proof (cases "decoherence_delay (memory s)")
      case None
      have w: "memory_write (memory s) e None (key e) =
                 (Some a, (memory s)\<lparr>storage := (storage (memory s))
                                        [a := (fst (storage (memory s) ! a), Some e)],
                                     usage := usage (memory s) + 1\<rparr>)"
        using fi None by (simp add: memory_write_def)
      show ?thesis
      proof (cases "src e = Some (own s)")
        case True
        with ext nb dec a None show ?thesis
          unfolding handle_success_entangle_def Let_def
          by (simp add: w update_qubit_def split: option.splits)
      next
        case False
        with ext nb dec a None show ?thesis
          unfolding handle_success_entangle_def Let_def
          by (simp add: w update_qubit_def split: option.splits)
      qed
    next
      case (Some d)
      have w: "memory_write (memory s) e None (key e) =
                 (Some a, (memory s)\<lparr>storage := (storage (memory s))
                                        [a := (fst (storage (memory s) ! a),
                                               Some (e\<lparr>decoherence_time :=
                                                        Some (creation_time e + d)\<rparr>))],
                                     usage := usage (memory s) + 1,
                                     decoherence_schedule := decoherence_schedule (memory s) @
                                       [(a, name e, creation_time e + d)]\<rparr>)"
        using fi Some by (simp add: memory_write_def Let_def)
      show ?thesis
      proof (cases "src e = Some (own s)")
        case True
        with ext nb dec a Some show ?thesis
          unfolding handle_success_entangle_def Let_def
          by (simp add: w update_qubit_def split: option.splits)
      next
        case False
        with ext nb dec a Some show ?thesis
          unfolding handle_success_entangle_def Let_def
          by (simp add: w update_qubit_def split: option.splits)
      qed
    qed
  qed
  have count: "etg_count s' = etg_count s + (if src e = Some (own s) then 1 else 0)"
    if ok: "handle_success_entangle s e = Inr s'" for s s' :: "'t LinkLayer"
  proof -
    from ok obtain nb where nb: "(if src e = Some (own s) then dst e else src e) = Some nb"
      by (auto simp: handle_success_entangle_def Let_def split: if_splits option.splits)
    from ok obtain a m' where w: "memory_write (memory s) e None (key e) = (Some a, m')"
      by (cases "memory_write (memory s) e None (key e)")
         (auto simp: handle_success_entangle_def Let_def split: if_splits option.splits)
    from ok nb w show ?thesis
      by (auto simp: handle_success_entangle_def Let_def update_qubit_simps
               split: if_splits option.splits)
  qed
  have once: "etg_count sa' + etg_count sb' = etg_count sa + etg_count sb + 1"
    if "handle_success_entangle sa e = Inr sa'" "handle_success_entangle sb e = Inr sb'"
      "src e = Some (own sa)" "own sb \<noteq> own sa"
    using count [OF that(1)] count [OF that(2)] that(3,4) by auto
  from assert_fail fatal stored once show ?thesis by blast
qed

theorem C8_success_entangle_witness:
  "handle_success_entangle
     (ex_link_layer ''A'' True 3 [(ex_qubit 0 RESERVED ''qAB'' (Some ''k1''), None)]) ex_pair
   = Inr ((ex_link_layer ''A'' True 3
             [(ex_qubit 0 ENTANGLED0 ''qAB'' (Some ''k1''), Some ex_pair)])
            \<lparr>etg_count := 1, events := [QubitEntangledEvent ''A'' ''B'' 0 3]\<rparr>)
   \<and> handle_success_entangle
       (ex_link_layer ''B'' True 3 [(ex_qubit 0 RESERVED ''qAB'' (Some ''k1''), None)]) ex_pair
     = Inr ((ex_link_layer ''B'' True 3
               [(ex_qubit 0 ENTANGLED0 ''qAB'' (Some ''k1''), Some ex_pair)])
              \<lparr>events := [QubitEntangledEvent ''B'' ''A'' 0 3]\<rparr>)
   \<and> etg_count ((ex_link_layer ''A'' True 3
                     [(ex_qubit 0 ENTANGLED0 ''qAB'' (Some ''k1''), Some ex_pair)])
                    \<lparr>etg_count := 1, events := [QubitEntangledEvent ''A'' ''B'' 0 3]\<rparr>)
       + etg_count ((ex_link_layer ''B'' True 3
                       [(ex_qubit 0 ENTANGLED0 ''qAB'' (Some ''k1''), Some ex_pair)])
                      \<lparr>events := [QubitEntangledEvent ''B'' ''A'' 0 3]\<rparr>)
     = 0 + 0 + (1::nat)
   \<and> handle_success_entangle
       (ex_link_layer ''B'' True 3 [(ex_qubit 0 RESERVED ''qAB'' (Some ''k7''), None)]) ex_pair
     = Inl Exception
   \<and> handle_success_entangle
       (ex_link_layer ''B'' True 30 [(ex_qubit 0 RESERVED ''qAB'' (Some ''k1''), None)]) ex_pair
     = Inl AssertionError"
proof -
  let ?sa = "ex_link_layer ''A'' True 3 [(ex_qubit 0 RESERVED ''qAB'' (Some ''k1''), None)]"
  let ?sb = "ex_link_layer ''B'' True 3 [(ex_qubit 0 RESERVED ''qAB'' (Some ''k1''), None)]"
  let ?sc = "ex_link_layer ''B'' True 3 [(ex_qubit 0 RESERVED ''qAB'' (Some ''k7''), None)]"
  let ?sd = "ex_link_layer ''B'' True 30 [(ex_qubit 0 RESERVED ''qAB'' (Some ''k1''), None)]"
  let ?sa' = "(ex_link_layer ''A'' True 3
                 [(ex_qubit 0 ENTANGLED0 ''qAB'' (Some ''k1''), Some ex_pair)])
                \<lparr>etg_count := 1, events := [QubitEntangledEvent ''A'' ''B'' 0 3]\<rparr>"
  let ?sb' = "(ex_link_layer ''B'' True 3
                 [(ex_qubit 0 ENTANGLED0 ''qAB'' (Some ''k1''), Some ex_pair)])
                \<lparr>events := [QubitEntangledEvent ''B'' ''A'' 0 3]\<rparr>"
  have pa: "is_external ?sa (tc ?sa)
            \<and> (if src ex_pair = Some (own ?sa) then dst ex_pair else src ex_pair) = Some ''B''
            \<and> (case decoherence_time ex_pair of None \<Rightarrow> True | Some t \<Rightarrow> tc ?sa < t)"
    and pb: "is_external ?sb (tc ?sb)
            \<and> (if src ex_pair = Some (own ?sb) then dst ex_pair else src ex_pair) = Some ''A''
            \<and> (case decoherence_time ex_pair of None \<Rightarrow> True | Some t \<Rightarrow> tc ?sb < t)"
    and pc: "is_external ?sc (tc ?sc)
            \<and> (if src ex_pair = Some (own ?sc) then dst ex_pair else src ex_pair) = Some ''A''
            \<and> (case decoherence_time ex_pair of None \<Rightarrow> True | Some t \<Rightarrow> tc ?sc < t)"
    by (simp_all add: ex_link_layer_def ex_pair_def)
  have qa: "0 < length (storage (memory ?sa))
            \<and> slot_matches None (key ex_pair) (storage (memory ?sa) ! 0)
            \<and> (\<forall>j < 0. \<not> slot_matches None (key ex_pair) (storage (memory ?sa) ! j))"
    and qb: "0 < length (storage (memory ?sb))
            \<and> slot_matches None (key ex_pair) (storage (memory ?sb) ! 0)
            \<and> (\<forall>j < 0. \<not> slot_matches None (key ex_pair) (storage (memory ?sb) ! j))"
    and qc: "\<forall>slot \<in> set (storage (memory ?sc)). \<not> slot_matches None (key ex_pair) slot"
    by (simp_all add: slot_matches_def ex_link_layer_def ex_memory_def ex_qubit_def ex_pair_def)
  have pd: "\<not> is_external ?sd (tc ?sd)
            \<or> (if src ex_pair = Some (own ?sd) then dst ex_pair else src ex_pair) = None
            \<or> \<not> (case decoherence_time ex_pair of None \<Rightarrow> True | Some t \<Rightarrow> tc ?sd < t)"
    by (simp add: ex_link_layer_def)
  have ha: "handle_success_entangle ?sa ex_pair = Inr ?sa'"
    using C8_success_entangle [where s = ?sa and e = ex_pair and nb = "''B''" and a = 0,
            THEN conjunct2, THEN conjunct1, THEN mp, OF pa, THEN conjunct2, THEN mp, OF qa]
    by (simp add: ex_link_layer_def ex_memory_def ex_qubit_def ex_pair_def)
  have hb: "handle_success_entangle ?sb ex_pair = Inr ?sb'"
    using C8_success_entangle [where s = ?sb and e = ex_pair and nb = "''A''" and a = 0,
            THEN conjunct2, THEN conjunct1, THEN mp, OF pb, THEN conjunct2, THEN mp, OF qb]
    by (simp add: ex_link_layer_def ex_memory_def ex_qubit_def ex_pair_def)
  have hc: "handle_success_entangle ?sc ex_pair = Inl Exception"
    using C8_success_entangle [where s = ?sc and e = ex_pair and nb = "''A''",
            THEN conjunct2, THEN conjunct1, THEN mp, OF pc, THEN conjunct1, THEN mp, OF qc] .
  have hd: "handle_success_entangle ?sd ex_pair = Inl AssertionError"
    using C8_success_entangle [where s = ?sd and e = ex_pair, THEN conjunct1, THEN mp, OF pd] .
  have he: "src ex_pair = Some (own ?sa) \<and> own ?sb \<noteq> own ?sa"
    by (simp add: ex_link_layer_def ex_pair_def)
  have once: "etg_count ?sa' + etg_count ?sb' = etg_count ?sa + etg_count ?sb + 1"
    using C8_success_entangle [where s = ?sa and e = ex_pair and sa = ?sa and sb = ?sb
            and sa' = ?sa' and sb' = ?sb', THEN conjunct2, THEN conjunct2] ha hb he
    by blast
  have z: "etg_count ?sa = 0" "etg_count ?sb = 0" by (simp_all add: ex_link_layer_def)
  from ha hb hc hd once z show ?thesis by simp
qed

text \<open>
  With a link architecture that notifies the far end first, the first endpoint to
  handle the notification is not the source of the pair, and its counter stays as
  it is.
\<close>

theorem C8_secondary_first_counterexample:
  "events (generate_entanglement
             (ex_link_layer ''A'' True 0 [(ex_qubit 0 RESERVED ''qAB'' (Some ''k1''), None)])
             1 (1, 2, 0) ''e1'' ''B'' 0)
   = [LinkArchSuccessEvent ''A'' ex_pair 3, LinkArchSuccessEvent ''B'' ex_pair 1]
   \<and> (1 :: int) < 3
   \<and> handle_success_entangle
       (ex_link_layer ''B'' True 1 [(ex_qubit 0 RESERVED ''qAB'' (Some ''k1''), None)]) ex_pair
     = Inr ((ex_link_layer ''B'' True 1
               [(ex_qubit 0 ENTANGLED0 ''qAB'' (Some ''k1''), Some ex_pair)])
              \<lparr>events := [QubitEntangledEvent ''B'' ''A'' 0 1]\<rparr>)
   \<and> etg_count ((ex_link_layer ''B'' True 1
                     [(ex_qubit 0 ENTANGLED0 ''qAB'' (Some ''k1''), Some ex_pair)])
                    \<lparr>events := [QubitEntangledEvent ''B'' ''A'' 0 1]\<rparr>)
     = etg_count (ex_link_layer ''B'' True 1 [(ex_qubit 0 RESERVED ''qAB'' (Some ''k1''), None)])"
  by (simp add: generate_entanglement_def handle_success_entangle_def memory_write_def
        slot_matches_def Let_def update_qubit_def ex_link_layer_def ex_memory_def ex_qubit_def
        ex_pair_def)

end
